theory Spec2Isabelle
  imports
    Complex_Main
    "HOL-Library.AList"
    "HOL-Library.Multiset"
    "HOL-Library.Product_Lexorder"
    "HOL-Library.Char_ord"
    "HOL-Library.List_Lexorder"
begin

section \<open>The dispatch and tracking engine of models/dispatch\_system.py\<close>

text \<open>
  The module is embedded function by function. Python ints are \<open>int\<close>. A Python float
  is a finite double, read as the real number it denotes; NaN and the infinities are
  outside the model. Comparisons between floats and ints are exact, as in Python. The
  arithmetic of doubles and the functions of the \<open>math\<close> module round, and they are not
  defined here: every function that computes with floats takes the platform's
  operations as its first argument \<open>fp\<close>, so that a theorem holds for whatever the
  platform computes, and \<open>math.sqrt\<close> raises on a negative argument. A decimal
  literal of the source is written as the source writes it; one that is not a double
  (\<open>13.9\<close>) stands for the double nearest to it.
  A \<open>datetime\<close> is a whole number of microseconds on the UTC clock and a \<open>timedelta\<close>
  a difference of such numbers. A dictionary is an association list in insertion order:
  \<open>map_of\<close> is the lookup, \<open>AList.update\<close> is item assignment (an existing key keeps
  its position, a new key goes last), and \<open>map snd\<close> is \<open>.values()\<close>. Values that the
  source reads from the clock or from \<open>uuid.uuid4()\<close> are parameters of the operation
  that reads them. Every operation returns its result together with the state of the
  two services after it, also when it raises.
\<close>

subsection \<open>Exceptions and loosely typed values\<close>

datatype py_exception =
  KeyError | AttributeError | TypeError | ValueError | ZeroDivisionError | IndexError

datatype 'a outcome = Returned 'a | Raised py_exception

text \<open>The values of a \<open>Dict[str, any]\<close> that came out of a JSON body.\<close>

datatype json =
    JNull
  | JBool bool
  | JNum real
  | JStr string
  | JList "json list"
  | JDict "(string \<times> json) list"

subsection \<open>Enumerations and data classes\<close>

datatype resource_type = DRONE | AUTONOMOUS_VEHICLE | EMERGENCY_TEAM | SUPPLY_DELIVERY | MEDICAL_UNIT

datatype resource_status =
  AVAILABLE | RS_DISPATCHED | EN_ROUTE | ARRIVED | RS_COMPLETED | RS_FAILED | MAINTENANCE

datatype dispatch_status =
  PENDING | SEARCHING | ASSIGNED | DISPATCHED | IN_PROGRESS | COMPLETED | FAILED | CANCELLED

record location =
  lat :: real
  lon :: real
  address :: "string option"

record resource =
  r_resource_id :: string
  r_resource_type :: resource_type
  r_name :: string
  r_location :: location
  r_capabilities :: "string list"
  r_capacity :: "(string \<times> int) list"
  r_status :: resource_status
  r_operator :: string
  r_contact_info :: "(string \<times> string) list"
  r_metadata :: "(string \<times> json) list"

record dispatch_request =
  q_request_id :: string
  q_requester_id :: string
  q_location :: location
  q_resource_type :: resource_type
  q_priority :: int
  q_requirements :: "(string \<times> json) list"
  q_description :: string
  q_created_at :: int
  q_deadline :: "int option"

text \<open>One entry of \<open>progress_updates\<close>; the key \<open>progress_percentage\<close> is present
  only in the en-route entry.\<close>

record progress_update =
  pu_timestamp :: int
  pu_status :: string
  pu_message :: string
  pu_progress_percentage :: "int option"

record dispatch_assignment =
  a_assignment_id :: string
  a_request_id :: string
  a_resource_id :: string
  a_status :: dispatch_status
  a_assigned_at :: int
  a_estimated_arrival :: "int option"
  a_actual_arrival :: "int option"
  a_completion_time :: "int option"
  a_route :: "location list"
  a_current_location :: "location option"
  a_progress_updates :: "progress_update list"

text \<open>One entry of \<open>fulfillment_history\<close>: the three \<open>to_dict()\<close> snapshots and the
  completion time.\<close>

record history_entry =
  h_assignment :: dispatch_assignment
  h_resource :: resource
  h_request :: dispatch_request
  h_completed_at :: int

text \<open>The discovery service (\<open>resources\<close>) and the fulfillment service that holds it.\<close>

record services =
  resources :: "(string \<times> resource) list"
  active_requests :: "(string \<times> dispatch_request) list"
  assignments :: "(string \<times> dispatch_assignment) list"
  fulfillment_history :: "history_entry list"

subsection \<open>Python primitives\<close>

text \<open>\<open>int(x)\<close> on a float truncates toward zero.\<close>

definition py_int :: "real \<Rightarrow> int" where
  "py_int x = (if 0 \<le> x then \<lfloor>x\<rfloor> else \<lceil>x\<rceil>)"

text \<open>\<open>xs[i]\<close>: a negative index counts from the end, anything outside raises.\<close>

definition py_index :: "'a list \<Rightarrow> int \<Rightarrow> 'a outcome" where
  "py_index xs i =
     (if 0 \<le> i \<and> i < int (length xs) then Returned (xs ! nat i)
      else if i < 0 \<and> 0 \<le> int (length xs) + i then Returned (xs ! nat (int (length xs) + i))
      else Raised IndexError)"

fun str_nat :: "nat \<Rightarrow> string" where
  "str_nat n =
     (if n < 10 then [''0123456789'' ! n]
      else str_nat (n div 10) @ [''0123456789'' ! (n mod 10)])"

declare str_nat.simps [simp del]

definition str_int :: "int \<Rightarrow> string" where
  "str_int i = (if i < 0 then CHR ''-'' # str_nat (nat (- i)) else str_nat (nat i))"

subsection \<open>Floating point\<close>

text \<open>The operations on doubles that the module uses: \<open>+\<close>, \<open>-\<close>, \<open>*\<close>, \<open>/\<close> and
  \<open>** n\<close>, the functions of \<open>math\<close>, \<open>timedelta(seconds=x)\<close> (a number of
  microseconds) and \<open>timedelta.total_seconds()\<close>. An int operand is converted first,
  as Python does.\<close>

record float_ops =
  f_add :: "real \<Rightarrow> real \<Rightarrow> real"
  f_sub :: "real \<Rightarrow> real \<Rightarrow> real"
  f_mul :: "real \<Rightarrow> real \<Rightarrow> real"
  f_div :: "real \<Rightarrow> real \<Rightarrow> real"
  f_pow :: "real \<Rightarrow> nat \<Rightarrow> real"
  f_sin :: "real \<Rightarrow> real"
  f_cos :: "real \<Rightarrow> real"
  f_sqrt :: "real \<Rightarrow> real"
  f_atan2 :: "real \<Rightarrow> real \<Rightarrow> real"
  f_radians :: "real \<Rightarrow> real"
  f_timedelta :: "real \<Rightarrow> int"
  f_total_seconds :: "int \<Rightarrow> real"

text \<open>\<open>math.sqrt(x)\<close> raises ValueError (math domain error) below zero.\<close>

definition py_sqrt :: "float_ops \<Rightarrow> real \<Rightarrow> real outcome" where
  "py_sqrt fp x = (if x < 0 then Raised ValueError else Returned (f_sqrt fp x))"

text \<open>\<open>x / y\<close> with a divisor that can be zero.\<close>

definition py_truediv :: "float_ops \<Rightarrow> real \<Rightarrow> real \<Rightarrow> real outcome" where
  "py_truediv fp x y = (if y = 0 then Raised ZeroDivisionError else Returned (f_div fp x y))"

text \<open>A number that is an int or a float, such as \<open>max_distance_km\<close> (the default is
  the int 50, a JSON body gives either).\<close>

datatype number = PyInt int | PyFloat real

text \<open>\<open>n * 1000\<close>: exact on an int, a float product otherwise.\<close>

definition times_1000 :: "float_ops \<Rightarrow> number \<Rightarrow> real" where
  "times_1000 fp n =
     (case n of PyInt i \<Rightarrow> real_of_int (i * 1000) | PyFloat x \<Rightarrow> f_mul fp x 1000)"

subsection \<open>Location.distance\_to\<close>

text \<open>The two square roots are taken in the order of the arguments of \<open>atan2\<close>; the
  second one raises when rounding has put \<open>a\<close> above 1.\<close>

definition distance_to :: "float_ops \<Rightarrow> location \<Rightarrow> location \<Rightarrow> real outcome" where
  "distance_to fp self other =
     (let R = 6371000;
          lat1_rad = f_radians fp (lat self);
          lat2_rad = f_radians fp (lat other);
          delta_lat = f_radians fp (f_sub fp (lat other) (lat self));
          delta_lon = f_radians fp (f_sub fp (lon other) (lon self));
          a = f_add fp (f_pow fp (f_sin fp (f_div fp delta_lat 2)) 2)
                (f_mul fp (f_mul fp (f_cos fp lat1_rad) (f_cos fp lat2_rad))
                   (f_pow fp (f_sin fp (f_div fp delta_lon 2)) 2))
      in case py_sqrt fp a of
           Raised e \<Rightarrow> Raised e
         | Returned root_a \<Rightarrow>
             (case py_sqrt fp (f_sub fp 1 a) of
                Raised e \<Rightarrow> Raised e
              | Returned root_1_a \<Rightarrow>
                  (let c = f_mul fp 2 (f_atan2 fp root_a root_1_a)
                   in Returned (f_mul fp R c))))"

subsection \<open>BeckNDiscoveryService\<close>

text \<open>\<open>cap in resource.capabilities\<close> for a value of any type: only a string can be equal
  to a member of a list of strings.\<close>

fun json_in :: "json \<Rightarrow> string list \<Rightarrow> bool" where
  "json_in (JStr s) xs = (s \<in> set xs)"
| "json_in _ xs = False"

text \<open>\<open>resource.capacity[capacity_type] < min_value\<close>: an int against a number (a bool
  is an int in Python); any other type raises TypeError.\<close>

fun int_less_json :: "int \<Rightarrow> json \<Rightarrow> bool outcome" where
  "int_less_json c (JNum v) = Returned (real_of_int c < v)"
| "int_less_json c (JBool b) = Returned (c < (if b then 1 else 0))"
| "int_less_json c _ = Raised TypeError"

text \<open>The inner loop over \<open>req_value.items()\<close>. \<open>Returned False\<close> is the
  \<open>return False\<close> of the enclosing function, \<open>Returned True\<close> is the loop running
  to its end.\<close>

fun min_capacity_loop :: "(string \<times> int) list \<Rightarrow> (string \<times> json) list \<Rightarrow> bool outcome" where
  "min_capacity_loop capacity [] = Returned True"
| "min_capacity_loop capacity ((capacity_type, min_value) # rest) =
     (case map_of capacity capacity_type of
        None \<Rightarrow> Returned False
      | Some c \<Rightarrow>
          (case int_less_json c min_value of
             Raised e \<Rightarrow> Raised e
           | Returned True \<Rightarrow> Returned False
           | Returned False \<Rightarrow> min_capacity_loop capacity rest))"

fun meets_requirements :: "resource \<Rightarrow> (string \<times> json) list \<Rightarrow> bool outcome" where
  "meets_requirements resource [] = Returned True"
| "meets_requirements resource ((req_key, req_value) # rest) =
     (if req_key = ''capabilities'' then
        (let required_caps = (case req_value of JList xs \<Rightarrow> xs | _ \<Rightarrow> [req_value]) in
         if \<not> list_ex (\<lambda>cap. json_in cap (r_capabilities resource)) required_caps
         then Returned False
         else meets_requirements resource rest)
      else if req_key = ''min_capacity'' then
        (case req_value of
           JDict items \<Rightarrow>
             (case min_capacity_loop (r_capacity resource) items of
                Returned True \<Rightarrow> meets_requirements resource rest
              | other \<Rightarrow> other)
         | _ \<Rightarrow> Raised AttributeError)
      else if req_key = ''operator'' then
        (if JStr (r_operator resource) \<noteq> req_value then Returned False
         else meets_requirements resource rest)
      else meets_requirements resource rest)"

text \<open>The loop of \<open>discover_resources\<close> over \<open>self.resources.values()\<close>, with the list
  \<open>available_resources\<close> it appends to.\<close>

fun discover_loop ::
  "float_ops \<Rightarrow> dispatch_request \<Rightarrow> number \<Rightarrow> resource list \<Rightarrow> resource list
     \<Rightarrow> resource list outcome" where
  "discover_loop fp request max_distance_km available_resources [] = Returned available_resources"
| "discover_loop fp request max_distance_km available_resources (resource # rest) =
     (if r_resource_type resource \<noteq> q_resource_type request
      then discover_loop fp request max_distance_km available_resources rest
      else if r_status resource \<noteq> AVAILABLE
      then discover_loop fp request max_distance_km available_resources rest
      else
        (case distance_to fp (r_location resource) (q_location request) of
           Raised e \<Rightarrow> Raised e
         | Returned distance \<Rightarrow>
             if distance > times_1000 fp max_distance_km
             then discover_loop fp request max_distance_km available_resources rest
             else
               (case meets_requirements resource (q_requirements request) of
                  Raised e \<Rightarrow> Raised e
                | Returned True \<Rightarrow>
                    discover_loop fp request max_distance_km (available_resources @ [resource]) rest
                | Returned False \<Rightarrow>
                    discover_loop fp request max_distance_km available_resources rest)))"

text \<open>\<open>list.sort(key=...)\<close> first computes the key of every element, a tuple that is
  compared lexicographically, and then sorts the elements by their keys, stably.\<close>

fun sort_keys ::
  "float_ops \<Rightarrow> dispatch_request \<Rightarrow> resource list \<Rightarrow> ((real \<times> int) \<times> resource) list outcome" where
  "sort_keys fp request [] = Returned []"
| "sort_keys fp request (r # rest) =
     (case distance_to fp (r_location r) (q_location request) of
        Raised e \<Rightarrow> Raised e
      | Returned distance \<Rightarrow>
          (case sort_keys fp request rest of
             Raised e \<Rightarrow> Raised e
           | Returned keyed \<Rightarrow> Returned (((distance, - q_priority request), r) # keyed)))"

definition discover_resources ::
  "float_ops \<Rightarrow> services \<Rightarrow> dispatch_request \<Rightarrow> number \<Rightarrow> resource list outcome" where
  "discover_resources fp self request max_distance_km =
     (case discover_loop fp request max_distance_km [] (map snd (resources self)) of
        Raised e \<Rightarrow> Raised e
      | Returned available_resources \<Rightarrow>
          (case sort_keys fp request available_resources of
             Raised e \<Rightarrow> Raised e
           | Returned keyed \<Rightarrow> Returned (map snd (sort_key fst keyed))))"

definition register_resource :: "services \<Rightarrow> resource \<Rightarrow> bool \<times> services" where
  "register_resource self resource =
     (True, self\<lparr>resources := AList.update (r_resource_id resource) resource (resources self)\<rparr>)"

text \<open>A \<open>Location\<close> object is always truthy, so \<open>if location:\<close> asks whether one was
  passed.\<close>

definition update_resource_status ::
  "services \<Rightarrow> string \<Rightarrow> resource_status \<Rightarrow> location option \<Rightarrow> bool \<times> services" where
  "update_resource_status self resource_id status location =
     (case map_of (resources self) resource_id of
        None \<Rightarrow> (False, self)
      | Some r \<Rightarrow>
          (let r1 = r\<lparr>r_status := status\<rparr>;
               r2 = (case location of None \<Rightarrow> r1 | Some l \<Rightarrow> r1\<lparr>r_location := l\<rparr>)
           in (True, self\<lparr>resources := AList.update resource_id r2 (resources self)\<rparr>)))"

subsection \<open>DispatchFulfillmentService\<close>

text \<open>The dictionary of \<open>_get_resource_speed\<close>, in metres per second (each literal
  stands for the double nearest to it), and the lookup
  \<open>speeds.get(resource_type, 10.0)\<close>.\<close>

definition speeds :: "(resource_type \<times> real) list" where
  "speeds =
     [(DRONE, 15.0), (AUTONOMOUS_VEHICLE, 13.9), (EMERGENCY_TEAM, 11.1),
      (SUPPLY_DELIVERY, 8.3), (MEDICAL_UNIT, 16.7)]"

definition get_resource_speed :: "resource_type \<Rightarrow> real" where
  "get_resource_speed resource_type =
     (case map_of speeds resource_type of Some v \<Rightarrow> v | None \<Rightarrow> 10.0)"

definition waypoint :: "float_ops \<Rightarrow> location \<Rightarrow> location \<Rightarrow> int \<Rightarrow> int \<Rightarrow> location" where
  "waypoint fp start dest num_waypoints i =
     (let progress = f_div fp (real_of_int i) (real_of_int num_waypoints)
      in \<lparr>lat = f_add fp (lat start) (f_mul fp (f_sub fp (lat dest) (lat start)) progress),
          lon = f_add fp (lon start) (f_mul fp (f_sub fp (lon dest) (lon start)) progress),
          address = None\<rparr>)"

definition generate_route :: "float_ops \<Rightarrow> location \<Rightarrow> location \<Rightarrow> location list outcome" where
  "generate_route fp start dest =
     (case distance_to fp start dest of
        Raised e \<Rightarrow> Raised e
      | Returned distance \<Rightarrow>
          (let num_waypoints = max 2 (py_int (f_div fp distance 5000))
           in Returned
                ([start] @ map (waypoint fp start dest num_waypoints) [1..num_waypoints - 1]
                 @ [dest])))"

text \<open>The assignment object lives in the dictionary and is mutated in place; the model
  writes it back under the key it was read from.\<close>

definition store_assignment :: "services \<Rightarrow> string \<Rightarrow> dispatch_assignment \<Rightarrow> services" where
  "store_assignment self assignment_id a =
     self\<lparr>assignments := AList.update assignment_id a (assignments self)\<rparr>"

text \<open>The choice of the resource id at the top of \<open>assign_resource\<close>.
  \<open>if not resource_id\<close> holds for \<open>None\<close> and for the empty string; then the id is
  taken from the first result of discovery at the default radius. \<open>Returned None\<close> is
  the \<open>return None\<close> of the enclosing function.\<close>

definition select_resource_id ::
  "float_ops \<Rightarrow> services \<Rightarrow> dispatch_request \<Rightarrow> string option \<Rightarrow> string option outcome" where
  "select_resource_id fp self request resource_id =
     (case resource_id of
        Some (c # cs) \<Rightarrow> Returned (Some (c # cs))
      | _ \<Rightarrow>
          (case discover_resources fp self request (PyInt 50) of
             Raised e \<Rightarrow> Raised e
           | Returned [] \<Rightarrow> Returned None
           | Returned (r # _) \<Rightarrow> Returned (Some (r_resource_id r))))"

text \<open>\<open>assign_resource\<close>. \<open>new_uuid\<close> is the value of \<open>uuid.uuid4()\<close>, \<open>now1\<close> and
  \<open>now2\<close> are the two readings of \<open>datetime.utcnow()\<close>. Nothing is stored before the
  distance and the route have been computed.\<close>

definition assign_resource ::
  "float_ops \<Rightarrow> string \<Rightarrow> int \<Rightarrow> int \<Rightarrow> services \<Rightarrow> string \<Rightarrow> string option
     \<Rightarrow> dispatch_assignment option outcome \<times> services" where
  "assign_resource fp new_uuid now1 now2 self request_id resource_id =
     (case map_of (active_requests self) request_id of
        None \<Rightarrow> (Returned None, self)
      | Some request \<Rightarrow>
          (case select_resource_id fp self request resource_id of
             Raised e \<Rightarrow> (Raised e, self)
           | Returned None \<Rightarrow> (Returned None, self)
           | Returned (Some resource_id) \<Rightarrow>
               (case map_of (resources self) resource_id of
                  None \<Rightarrow> (Returned None, self)
                | Some resource \<Rightarrow>
                    if r_status resource \<noteq> AVAILABLE then (Returned None, self)
                    else
                      (let assignment =
                             \<lparr>a_assignment_id = new_uuid,
                              a_request_id = request_id,
                              a_resource_id = resource_id,
                              a_status = ASSIGNED,
                              a_assigned_at = now1,
                              a_estimated_arrival = None,
                              a_actual_arrival = None,
                              a_completion_time = None,
                              a_route = [],
                              a_current_location = Some (r_location resource),
                              a_progress_updates = []\<rparr>
                       in case distance_to fp (r_location resource) (q_location request) of
                            Raised e \<Rightarrow> (Raised e, self)
                          | Returned distance \<Rightarrow>
                              (let speed_mps = get_resource_speed (r_resource_type resource);
                                   travel_time_seconds = f_div fp distance speed_mps;
                                   assignment = assignment\<lparr>a_estimated_arrival :=
                                       Some (now2 + f_timedelta fp travel_time_seconds)\<rparr>
                               in case generate_route fp (r_location resource) (q_location request) of
                                    Raised e \<Rightarrow> (Raised e, self)
                                  | Returned route \<Rightarrow>
                                      (let assignment = assignment\<lparr>a_route := route\<rparr>;
                                           self1 = snd (update_resource_status self resource_id
                                                          RS_DISPATCHED None);
                                           self2 = store_assignment self1
                                                     (a_assignment_id assignment) assignment
                                       in (Returned (Some assignment), self2)))))))"

text \<open>The three branches of \<open>update_assignment_progress\<close> that change something.
  \<open>resource\<close> is the object read from the registry at the top of the function.\<close>

definition start_dispatch ::
  "int \<Rightarrow> services \<Rightarrow> string \<Rightarrow> dispatch_assignment \<Rightarrow> resource
     \<Rightarrow> dispatch_assignment option outcome \<times> services" where
  "start_dispatch now self assignment_id assignment resource =
     (let a1 = assignment\<lparr>a_status := DISPATCHED\<rparr>;
          self1 = snd (update_resource_status (store_assignment self assignment_id a1)
                         (a_resource_id a1) EN_ROUTE None);
          a2 = a1\<lparr>a_progress_updates := a_progress_updates a1 @
                 [\<lparr>pu_timestamp = now, pu_status = ''dispatched'',
                   pu_message = r_name resource @ '' has been dispatched'',
                   pu_progress_percentage = None\<rparr>]\<rparr>
      in (Returned (Some a2), store_assignment self1 assignment_id a2))"

definition move_along_route ::
  "float_ops \<Rightarrow> int \<Rightarrow> services \<Rightarrow> string \<Rightarrow> dispatch_assignment \<Rightarrow> resource
     \<Rightarrow> dispatch_assignment option outcome \<times> services" where
  "move_along_route fp now self assignment_id assignment resource =
     (let elapsed = f_total_seconds fp (now - a_assigned_at assignment) in
      case a_estimated_arrival assignment of
        None \<Rightarrow> (Returned (Some assignment), self)
      | Some estimated_arrival \<Rightarrow>
          (let total_time = f_total_seconds fp (estimated_arrival - a_assigned_at assignment) in
           case py_truediv fp elapsed total_time of
             Raised e \<Rightarrow> (Raised e, self)
           | Returned ratio \<Rightarrow>
             (let progress = min 1 ratio in
              if progress \<ge> 1 then
                (let a1 = assignment\<lparr>a_status := IN_PROGRESS, a_actual_arrival := Some now\<rparr> in
                 case py_index (a_route a1) (- 1) of
                   Raised e \<Rightarrow> (Raised e, store_assignment self assignment_id a1)
                 | Returned destination \<Rightarrow>
                     (let a2 = a1\<lparr>a_current_location := Some destination\<rparr>;
                          self1 = snd (update_resource_status
                                         (store_assignment self assignment_id a2)
                                         (a_resource_id a2) ARRIVED (a_current_location a2));
                          a3 = a2\<lparr>a_progress_updates := a_progress_updates a2 @
                                 [\<lparr>pu_timestamp = now, pu_status = ''arrived'',
                                   pu_message = r_name resource @ '' has arrived at destination'',
                                   pu_progress_percentage = None\<rparr>]\<rparr>
                      in (Returned (Some a3), store_assignment self1 assignment_id a3)))
              else
                (let route_index =
                       py_int (f_mul fp progress (real_of_int (int (length (a_route assignment)) - 1))) in
                 case py_index (a_route assignment) route_index of
                   Raised e \<Rightarrow> (Raised e, self)
                 | Returned loc \<Rightarrow>
                     (let a1 = assignment\<lparr>a_current_location := Some loc\<rparr>;
                          a2 = a1\<lparr>a_progress_updates := a_progress_updates a1 @
                                 [\<lparr>pu_timestamp = now, pu_status = ''en_route'',
                                   pu_message = r_name resource @ '' is '' @
                                     str_int (py_int (f_mul fp progress 100)) @
                                     ''% of the way to destination'',
                                   pu_progress_percentage =
                                     Some (py_int (f_mul fp progress 100))\<rparr>]\<rparr>
                      in (Returned (Some a2), store_assignment self assignment_id a2))))))"

definition complete_mission ::
  "float_ops \<Rightarrow> int \<Rightarrow> services \<Rightarrow> string \<Rightarrow> dispatch_assignment \<Rightarrow> resource
     \<Rightarrow> dispatch_assignment option outcome \<times> services" where
  "complete_mission fp now self assignment_id assignment resource =
     (case a_actual_arrival assignment of
        None \<Rightarrow> (Returned (Some assignment), self)
      | Some actual_arrival \<Rightarrow>
          (let time_at_destination = f_total_seconds fp (now - actual_arrival) in
           if time_at_destination > 300 then
             (let a1 = assignment\<lparr>a_status := COMPLETED, a_completion_time := Some now\<rparr>;
                  self1 = snd (update_resource_status (store_assignment self assignment_id a1)
                                 (a_resource_id a1) RS_COMPLETED None);
                  a2 = a1\<lparr>a_progress_updates := a_progress_updates a1 @
                         [\<lparr>pu_timestamp = now, pu_status = ''completed'',
                           pu_message = r_name resource @ '' has completed the mission'',
                           pu_progress_percentage = None\<rparr>]\<rparr>;
                  self2 = store_assignment self1 assignment_id a2
              in case map_of (active_requests self2) (a_request_id a2) of
                   None \<Rightarrow> (Raised KeyError, self2)
                 | Some request \<Rightarrow>
                     (let self3 = self2\<lparr>fulfillment_history := fulfillment_history self2 @
                                    [\<lparr>h_assignment = a2,
                                      h_resource = resource\<lparr>r_status := RS_COMPLETED\<rparr>,
                                      h_request = request,
                                      h_completed_at = now\<rparr>]\<rparr>;
                          self4 = snd (update_resource_status self3 (a_resource_id a2) AVAILABLE None)
                      in (Returned (Some a2), self4)))
           else (Returned (Some assignment), self)))"

text \<open>\<open>update_assignment_progress\<close>; \<open>now\<close> is its reading of the clock.\<close>

definition update_assignment_progress ::
  "float_ops \<Rightarrow> int \<Rightarrow> services \<Rightarrow> string \<Rightarrow> dispatch_assignment option outcome \<times> services" where
  "update_assignment_progress fp now self assignment_id =
     (case map_of (assignments self) assignment_id of
        None \<Rightarrow> (Returned None, self)
      | Some assignment \<Rightarrow>
          (case map_of (resources self) (a_resource_id assignment) of
             None \<Rightarrow> (Raised KeyError, self)
           | Some resource \<Rightarrow>
               if a_status assignment = ASSIGNED
               then start_dispatch now self assignment_id assignment resource
               else if a_status assignment = DISPATCHED
               then move_along_route fp now self assignment_id assignment resource
               else if a_status assignment = IN_PROGRESS
               then complete_mission fp now self assignment_id assignment resource
               else (Returned (Some assignment), self)))"

definition cancel_assignment :: "services \<Rightarrow> string \<Rightarrow> bool \<times> services" where
  "cancel_assignment self assignment_id =
     (case map_of (assignments self) assignment_id of
        None \<Rightarrow> (False, self)
      | Some assignment \<Rightarrow>
          (let a1 = assignment\<lparr>a_status := CANCELLED\<rparr>;
               self1 = store_assignment self assignment_id a1;
               self2 = snd (update_resource_status self1 (a_resource_id a1) AVAILABLE None)
           in (True, self2)))"

section \<open>Notions of the specification\<close>

text \<open>
  What the code is compared with: the notions of the specification in its own words,
  and the conditions and sequences of operations that the properties speak about.
\<close>

text \<open>The three requirement keys that have a rule.\<close>

definition recognised_key :: "string \<Rightarrow> bool" where
  "recognised_key k = (k = ''capabilities'' \<or> k = ''min_capacity'' \<or> k = ''operator'')"

text \<open>The documented types of the requirement values: \<open>capabilities\<close> is a list of
  strings (a single string is accepted as a list of one), \<open>min_capacity\<close> maps names to
  numbers, \<open>operator\<close> is a string.\<close>

fun is_JStr :: "json \<Rightarrow> bool" where
  "is_JStr (JStr s) = True"
| "is_JStr _ = False"

fun is_JNum :: "json \<Rightarrow> bool" where
  "is_JNum (JNum x) = True"
| "is_JNum _ = False"

definition well_typed_requirement :: "string \<times> json \<Rightarrow> bool" where
  "well_typed_requirement kv =
     (case kv of (k, v) \<Rightarrow>
        if k = ''capabilities'' then
          (case v of JList xs \<Rightarrow> list_all is_JStr xs | JStr s \<Rightarrow> True | _ \<Rightarrow> False)
        else if k = ''min_capacity'' then
          (case v of JDict items \<Rightarrow> list_all (\<lambda>item. is_JNum (snd item)) items | _ \<Rightarrow> False)
        else if k = ''operator'' then is_JStr v
        else True)"

text \<open>The rule of one requirement key: at least one listed capability is among the
  resource's capabilities; every named capacity is present with a value at or above the
  threshold; the operator is the same string.\<close>

definition passes_rule :: "resource \<Rightarrow> string \<times> json \<Rightarrow> bool" where
  "passes_rule r kv =
     (case kv of (k, v) \<Rightarrow>
        (k = ''capabilities'' \<longrightarrow>
           (\<exists>c. c \<in> set (r_capabilities r) \<and> (v = JStr c \<or> (\<exists>xs. v = JList xs \<and> JStr c \<in> set xs))))
      \<and> (k = ''min_capacity'' \<longrightarrow>
           (\<forall>items capacity_key threshold.
              v = JDict items \<and> (capacity_key, JNum threshold) \<in> set items \<longrightarrow>
              (\<exists>c. map_of (r_capacity r) capacity_key = Some c \<and> threshold \<le> real_of_int c)))
      \<and> (k = ''operator'' \<longrightarrow> v = JStr (r_operator r)))"

definition requirements_satisfied :: "resource \<Rightarrow> (string \<times> json) list \<Rightarrow> bool" where
  "requirements_satisfied r requirements = (\<forall>kv \<in> set requirements. passes_rule r kv)"

text \<open>The distance of a resource from a request, when its computation returns.\<close>

definition distance_is :: "float_ops \<Rightarrow> dispatch_request \<Rightarrow> resource \<Rightarrow> real \<Rightarrow> bool" where
  "distance_is fp request r d =
     (distance_to fp (r_location r) (q_location request) = Returned d)"

text \<open>What discovery is to return: type, availability, distance, requirements.\<close>

definition eligible :: "float_ops \<Rightarrow> dispatch_request \<Rightarrow> number \<Rightarrow> resource \<Rightarrow> bool" where
  "eligible fp request max_distance_km r =
     (r_resource_type r = q_resource_type request
      \<and> r_status r = AVAILABLE
      \<and> (\<exists>d. distance_is fp request r d \<and> d \<le> times_1000 fp max_distance_km)
      \<and> requirements_satisfied r (q_requirements request))"

text \<open>The checks of the loop body on one resource, in the order of the code, and the
  resources that pass them.\<close>

definition candidate_check ::
  "float_ops \<Rightarrow> dispatch_request \<Rightarrow> number \<Rightarrow> resource \<Rightarrow> bool outcome" where
  "candidate_check fp request max_distance_km r =
     (if r_resource_type r = q_resource_type request \<and> r_status r = AVAILABLE then
        (case distance_to fp (r_location r) (q_location request) of
           Raised e \<Rightarrow> Raised e
         | Returned d \<Rightarrow>
             if d \<le> times_1000 fp max_distance_km
             then meets_requirements r (q_requirements request)
             else Returned False)
      else Returned False)"

definition passes_checks :: "float_ops \<Rightarrow> dispatch_request \<Rightarrow> number \<Rightarrow> resource \<Rightarrow> bool" where
  "passes_checks fp request max_distance_km r =
     (candidate_check fp request max_distance_km r = Returned True)"

text \<open>The first component of the sort key.\<close>

definition returned_distance :: "float_ops \<Rightarrow> dispatch_request \<Rightarrow> resource \<Rightarrow> real" where
  "returned_distance fp request r =
     (case distance_to fp (r_location r) (q_location request) of
        Returned d \<Rightarrow> d
      | Raised e \<Rightarrow> 0)"



text \<open>A registry that represents a dictionary filled by \<open>register_resource\<close>: every key
  occurs once and is the \<open>resource_id\<close> of its value.\<close>

definition registry_ok :: "services \<Rightarrow> bool" where
  "registry_ok self =
     (distinct (map fst (resources self))
      \<and> list_all (\<lambda>kv. r_resource_id (snd kv) = fst kv) (resources self))"


datatype assign_error = RequestNotFound | NoResourcesFound | ResourceNotFound | ResourceUnavailable

text \<open>The failure of an assignment in the words of the specification: the request is
  looked up first; without a (non-empty) resource id a discovery at 50 km that returns
  nothing is \<open>NoResourcesFound\<close>; a named resource must exist and be available.\<close>

definition assign_failure ::
  "float_ops \<Rightarrow> services \<Rightarrow> string \<Rightarrow> string option \<Rightarrow> assign_error option" where
  "assign_failure fp self request_id resource_id =
     (case map_of (active_requests self) request_id of
        None \<Rightarrow> Some RequestNotFound
      | Some request \<Rightarrow>
          (case resource_id of
             Some (c # cs) \<Rightarrow>
               (case map_of (resources self) (c # cs) of
                  None \<Rightarrow> Some ResourceNotFound
                | Some r \<Rightarrow> if r_status r = AVAILABLE then None else Some ResourceUnavailable)
           | _ \<Rightarrow>
               (case discover_resources fp self request (PyInt 50) of
                  Returned [] \<Rightarrow> Some NoResourcesFound
                | _ \<Rightarrow> None)))"

text \<open>Sequences of the three operations that touch assignments, with the clock
  readings and the fresh id of each call.\<close>

datatype operation =
    Assign string int int string "string option"
  | Advance int string
  | Cancel string

fun apply_operation :: "float_ops \<Rightarrow> operation \<Rightarrow> services \<Rightarrow> services" where
  "apply_operation fp (Assign new_uuid now1 now2 request_id resource_id) self =
     snd (assign_resource fp new_uuid now1 now2 self request_id resource_id)"
| "apply_operation fp (Advance now assignment_id) self =
     snd (update_assignment_progress fp now self assignment_id)"
| "apply_operation fp (Cancel assignment_id) self =
     snd (cancel_assignment self assignment_id)"

fun run :: "float_ops \<Rightarrow> operation list \<Rightarrow> services \<Rightarrow> services" where
  "run fp [] self = self"
| "run fp (operation # rest) self = run fp rest (apply_operation fp operation self)"

text \<open>\<open>uuid.uuid4()\<close> never repeats an id that is already a key of \<open>assignments\<close>.\<close>

fun fresh_uuids :: "float_ops \<Rightarrow> operation list \<Rightarrow> services \<Rightarrow> bool" where
  "fresh_uuids fp [] self = True"
| "fresh_uuids fp (operation # rest) self =
     ((case operation of
         Assign new_uuid _ _ _ _ \<Rightarrow> map_of (assignments self) new_uuid = None
       | _ \<Rightarrow> True)
      \<and> fresh_uuids fp rest (apply_operation fp operation self))"

text \<open>The chain of the lifecycle in the words of the specification: a status is followed
  by itself or by a later status of ASSIGNED, DISPATCHED, IN\_PROGRESS, COMPLETED.
  CANCELLED is not on the chain.\<close>

fun lifecycle_position :: "dispatch_status \<Rightarrow> nat option" where
  "lifecycle_position ASSIGNED = Some 0"
| "lifecycle_position DISPATCHED = Some 1"
| "lifecycle_position IN_PROGRESS = Some 2"
| "lifecycle_position COMPLETED = Some 3"
| "lifecycle_position _ = None"

definition forward :: "dispatch_status \<Rightarrow> dispatch_status \<Rightarrow> bool" where
  "forward s s' =
     (s' = s
      \<or> (case (lifecycle_position s, lifecycle_position s') of
            (Some i, Some j) \<Rightarrow> i < j
          | _ \<Rightarrow> False))"

text \<open>Every stored assignment refers to a registered resource.\<close>

definition references_ok :: "services \<Rightarrow> bool" where
  "references_ok self =
     list_all (\<lambda>ka. a_resource_id (snd ka) \<in> fst ` set (resources self)) (assignments self)"

section \<open>Float arithmetic of the examples\<close>

text \<open>
  The concrete examples are evaluated with the results that CPython gives on IEEE 754
  doubles. Each table lists, for one operation, the arguments at which the examples call
  it and its result there, as exact fractions.
\<close>

text \<open>The ideal \<open>atan2\<close>: the angle of the point \<open>(x, y)\<close>.\<close>

definition ideal_atan2 :: "real \<Rightarrow> real \<Rightarrow> real" where
  "ideal_atan2 y x =
     (if 0 < x then arctan (y / x)
      else if x < 0 \<and> 0 \<le> y then arctan (y / x) + pi
      else if x < 0 then arctan (y / x) - pi
      else if 0 < y then pi / 2
      else if y < 0 then - (pi / 2)
      else 0)"

text \<open>An operation given by a table of observed results, and by a formula elsewhere.\<close>

definition tabled :: "('a \<times> 'b) list \<Rightarrow> ('a \<Rightarrow> 'b) \<Rightarrow> 'a \<Rightarrow> 'b" where
  "tabled table f x = (case map_of table x of Some y \<Rightarrow> y | None \<Rightarrow> f x)"

definition add_table :: "((real \<times> real) \<times> real) list" where
  "add_table =
     [(((4387214401548047 / 2305843009213693952), (4495030849242473 / 4503599627370496)), (4503599627370497 / 4503599627370496))]"

definition sub_table :: "((real \<times> real) \<times> real) list" where
  "sub_table =
     [(((1), (2809598677207779 / 2361183241434822606848)), (9007188536972601 / 9007199254740992))]"

definition mul_table :: "((real \<times> real) \<times> real) list" where
  "mul_table =
     [(((6371000), (5030569068109113 / 2305843009213693952)), (7641257174711981 / 549755813888)),
      (((8998626396882423 / 9007199254740992), (8998626396882423 / 9007199254740992)), (4495030849242473 / 4503599627370496)),
      (((5224175567749775 / 18014398509481984), (100)), (8162774324609023 / 281474976710656))]"

definition div_table :: "((real \<times> real) \<times> real) list" where
  "div_table =
     [(((7641257174711981 / 549755813888), (5000)), (6259717877524055 / 2251799813685248)),
      (((7641257174711981 / 549755813888), (15)), (2037668579923195 / 2199023255552)),
      (((29), (100)), (5224175567749775 / 18014398509481984))]"

definition pow_table :: "((real \<times> nat) \<times> real) list" where
  "pow_table =
     [(((- 5030568070453593 / 4611686018427387904), 2), (2809598677207779 / 2361183241434822606848)),
      (((- 6286216213909009 / 144115188075855872), 2), (4387214401548047 / 2305843009213693952))]"

definition sin_table :: "(real \<times> real) list" where
  "sin_table =
     [((- 5030569068109113 / 4611686018427387904), (- 5030568070453593 / 4611686018427387904)),
      ((- 6288211335136391 / 144115188075855872), (- 6286216213909009 / 144115188075855872)),
      ((884279719003555 / 562949953421312), (1))]"

definition cos_table :: "(real \<times> real) list" where
  "cos_table =
     [((6288211335136391 / 144115188075855872), (8998626396882423 / 9007199254740992)),
      ((- 6288211335136391 / 144115188075855872), (8998626396882423 / 9007199254740992))]"

definition sqrt_table :: "(real \<times> real) list" where
  "sqrt_table =
     [((2809598677207779 / 2361183241434822606848), (5030568070453593 / 4611686018427387904)),
      ((9007188536972601 / 9007199254740992), (4503596947927601 / 4503599627370496)),
      ((4503599627370497 / 4503599627370496), (1))]"

definition atan2_table :: "((real \<times> real) \<times> real) list" where
  "atan2_table =
     [(((5030568070453593 / 4611686018427387904), (4503596947927601 / 4503599627370496)), (5030569068109113 / 4611686018427387904))]"

definition radians_table :: "(real \<times> real) list" where
  "radians_table =
     [((- 1 / 8), (- 5030569068109113 / 2305843009213693952)),
      ((5 / 2), (6288211335136391 / 144115188075855872)),
      ((- 5 / 2), (- 6288211335136391 / 144115188075855872)),
      ((- 5), (- 6288211335136391 / 72057594037927936)),
      ((180), (884279719003555 / 281474976710656))]"

text \<open>The float operations of the examples: where a double operation rounds, or a
  function of \<open>math\<close> is called on a non-trivial argument, the result is the value
  that CPython returns (IEEE 754 doubles, written as exact fractions); elsewhere it is
  the ideal operation, which the examples reach only where it is exact on doubles too
  (zero, one, halves, small whole numbers). \<open>timedelta(seconds=x)\<close> is the nearest
  microsecond, and \<open>total_seconds()\<close> the number of microseconds divided by
  \<open>10 ^ 6\<close>, exact at the whole seconds of the examples.\<close>

definition example_fp :: float_ops where
  "example_fp =
     \<lparr>f_add = (\<lambda>x y. tabled add_table (\<lambda>p. fst p + snd p) (x, y)),
      f_sub = (\<lambda>x y. tabled sub_table (\<lambda>p. fst p - snd p) (x, y)),
      f_mul = (\<lambda>x y. tabled mul_table (\<lambda>p. fst p * snd p) (x, y)),
      f_div = (\<lambda>x y. tabled div_table (\<lambda>p. fst p / snd p) (x, y)),
      f_pow = (\<lambda>x n. tabled pow_table (\<lambda>p. fst p ^ snd p) (x, n)),
      f_sin = tabled sin_table sin,
      f_cos = tabled cos_table cos,
      f_sqrt = tabled sqrt_table sqrt,
      f_atan2 = (\<lambda>y x. tabled atan2_table (\<lambda>p. ideal_atan2 (fst p) (snd p)) (y, x)),
      f_radians = tabled radians_table (\<lambda>d. d * pi / 180),
      f_timedelta = (\<lambda>x. round (x * 1000000)),
      f_total_seconds = (\<lambda>t. real_of_int t / 1000000)\<rparr>"

section \<open>Example states\<close>

text \<open>
  Concrete registries, requests and assignments near the origin of the coordinates: a
  drone at the place of a request, one at longitude 0.125 (13.9 km away), and a drone and
  a request that are almost antipodal. Times are in microseconds.
\<close>

definition origin :: location where
  "origin = \<lparr>lat = 0, lon = 0, address = None\<rparr>"

definition east :: location where
  "east = \<lparr>lat = 0, lon = 1 / 8, address = None\<rparr>"

definition north :: location where
  "north = \<lparr>lat = 5 / 2, lon = 0, address = None\<rparr>"

definition antipode :: location where
  "antipode = \<lparr>lat = - 5 / 2, lon = 180, address = None\<rparr>"

definition drone_D1 :: resource where
  "drone_D1 =
     \<lparr>r_resource_id = ''D1'', r_resource_type = DRONE, r_name = ''Drone 1'',
      r_location = origin, r_capabilities = [''aerial_surveillance''],
      r_capacity = [(''cargo_kg'', 10)], r_status = AVAILABLE, r_operator = ''Unit 1'',
      r_contact_info = [], r_metadata = []\<rparr>"

definition drone_D2 :: resource where
  "drone_D2 = drone_D1\<lparr>r_resource_id := ''D2'', r_status := MAINTENANCE\<rparr>"

definition drone_D3 :: resource where
  "drone_D3 = drone_D1\<lparr>r_resource_id := ''D3'', r_location := east\<rparr>"

definition drone_N1 :: resource where
  "drone_N1 = drone_D1\<lparr>r_resource_id := ''N1'', r_location := north\<rparr>"

definition request_Q1 :: dispatch_request where
  "request_Q1 =
     \<lparr>q_request_id = ''Q1'', q_requester_id = ''tester'', q_location = origin,
      q_resource_type = DRONE, q_priority = 3,
      q_requirements = [(''capabilities'', JList [JStr ''aerial_surveillance''])],
      q_description = ''survey'', q_created_at = 0, q_deadline = None\<rparr>"

definition request_far :: dispatch_request where
  "request_far = request_Q1\<lparr>q_request_id := ''Q3'', q_location := antipode\<rparr>"

definition example_services :: services where
  "example_services =
     \<lparr>resources = [(''D3'', drone_D3), (''D2'', drone_D2), (''D1'', drone_D1)],
      active_requests = [(''Q1'', request_Q1)],
      assignments = [], fulfillment_history = []\<rparr>"

definition far_services :: services where
  "far_services =
     \<lparr>resources = [(''N1'', drone_N1)],
      active_requests = [(''Q3'', request_far)],
      assignments = [], fulfillment_history = []\<rparr>"




definition sixteenth :: location where
  "sixteenth = \<lparr>lat = 0, lon = 1 / 16, address = None\<rparr>"




text \<open>An assignment on its way from longitude 0.125 to the origin, assigned at 100 s and
  due at 200 s (times in microseconds), and the same assignment after completion.\<close>

definition assignment_A1 :: dispatch_assignment where
  "assignment_A1 =
     \<lparr>a_assignment_id = ''A1'', a_request_id = ''Q1'', a_resource_id = ''D3'',
      a_status = DISPATCHED, a_assigned_at = 100000000, a_estimated_arrival = Some 200000000,
      a_actual_arrival = None, a_completion_time = None,
      a_route = [east, sixteenth, origin], a_current_location = Some east,
      a_progress_updates = []\<rparr>"

definition travelling_services :: services where
  "travelling_services =
     \<lparr>resources = [(''D3'', drone_D3\<lparr>r_status := EN_ROUTE\<rparr>)],
      active_requests = [(''Q1'', request_Q1)],
      assignments = [(''A1'', assignment_A1)],
      fulfillment_history = []\<rparr>"

definition assignment_done :: dispatch_assignment where
  "assignment_done =
     assignment_A1\<lparr>a_status := COMPLETED, a_actual_arrival := Some 200000000,
                   a_completion_time := Some 501000000, a_current_location := Some origin\<rparr>"

definition done_services :: services where
  "done_services =
     \<lparr>resources = [(''D3'', drone_D3\<lparr>r_location := origin\<rparr>)],
      active_requests = [(''Q1'', request_Q1)],
      assignments = [(''A1'', assignment_done)],
      fulfillment_history = []\<rparr>"

text \<open>The drone D1 is at the place of the request. It is assigned with both clock
  readings at 100 s, and polled once five microseconds later.\<close>

definition zero_trip_assigned :: services where
  "zero_trip_assigned =
     snd (assign_resource example_fp ''A1'' 100000000 100000000 example_services ''Q1''
            (Some ''D1''))"

definition zero_trip_dispatched :: services where
  "zero_trip_dispatched =
     snd (update_assignment_progress example_fp 100000005 zero_trip_assigned ''A1'')"

definition assignment_Z :: dispatch_assignment where
  "assignment_Z =
     \<lparr>a_assignment_id = ''A1'', a_request_id = ''Q1'', a_resource_id = ''D1'',
      a_status = ASSIGNED, a_assigned_at = 100000000, a_estimated_arrival = Some 100000000,
      a_actual_arrival = None, a_completion_time = None,
      a_route = [origin, origin, origin], a_current_location = Some origin,
      a_progress_updates = []\<rparr>"

section \<open>Properties\<close>

subsection \<open>Requirement checking\<close>

lemma meets_requirements_filter:
  "meets_requirements resource requirements =
     meets_requirements resource (filter (\<lambda>kv. recognised_key (fst kv)) requirements)"
  by (induction resource requirements rule: meets_requirements.induct)
     (auto simp: recognised_key_def Let_def split: json.splits outcome.splits bool.splits)

lemma meets_requirements_unrecognised:
  "\<forall>kv\<in>set requirements. \<not> recognised_key (fst kv) \<Longrightarrow> meets_requirements resource requirements = Returned True"
  by (induction resource requirements rule: meets_requirements.induct)
     (auto simp: recognised_key_def)

lemma min_capacity_loop_typed:
  "list_all (\<lambda>item. is_JNum (snd item)) items \<Longrightarrow>
   min_capacity_loop capacity items =
     Returned (\<forall>capacity_key threshold. (capacity_key, JNum threshold) \<in> set items \<longrightarrow>
                 (\<exists>c. map_of capacity capacity_key = Some c \<and> threshold \<le> real_of_int c))"
proof (induction capacity items rule: min_capacity_loop.induct)
  case (1 capacity)
  then show ?case by simp
next
  case (2 capacity capacity_type min_value rest)
  from "2.prems" obtain t where t: "min_value = JNum t"
    by (cases min_value) auto
  show ?case
  proof (cases "map_of capacity capacity_type")
    case None
    then show ?thesis using t by auto
  next
    case (Some c)
    show ?thesis
    proof (cases "real_of_int c < t")
      case True
      then show ?thesis using Some t by (auto simp: not_le)
    next
      case False
      then have "min_capacity_loop capacity ((capacity_type, min_value) # rest) = min_capacity_loop capacity rest"
        using Some t by simp
      also have "\<dots> = Returned (\<forall>capacity_key threshold. (capacity_key, JNum threshold) \<in> set rest \<longrightarrow>
                 (\<exists>c. map_of capacity capacity_key = Some c \<and> threshold \<le> real_of_int c))"
        using "2.IH"[OF Some, of False] "2.prems" False t by simp
      finally show ?thesis using Some False t by auto
    qed
  qed
qed

lemma list_ex_json_in:
  "list_ex (\<lambda>cap. json_in cap caps) xs = (\<exists>c. c \<in> set caps \<and> JStr c \<in> set xs)"
proof (induction xs)
  case Nil
  then show ?case by simp
next
  case (Cons x xs)
  then show ?case by (cases x) auto
qed

lemma meets_requirements_typed:
  "list_all well_typed_requirement requirements \<Longrightarrow>
   meets_requirements r requirements = Returned (requirements_satisfied r requirements)"
proof (induction r requirements rule: meets_requirements.induct)
  case (1 resource)
  then show ?case by (simp add: requirements_satisfied_def)
next
  case (2 resource req_key req_value rest)
  have rest: "list_all well_typed_requirement rest" and
       wt: "well_typed_requirement (req_key, req_value)"
    using "2.prems" by auto
  have sat: "requirements_satisfied resource ((req_key, req_value) # rest) =
               (passes_rule resource (req_key, req_value) \<and> requirements_satisfied resource rest)"
    by (simp add: requirements_satisfied_def)
  consider (caps) "req_key = ''capabilities''" | (minc) "req_key = ''min_capacity''"
    | (oper) "req_key = ''operator''"
    | (other) "req_key \<noteq> ''capabilities''" "req_key \<noteq> ''min_capacity''" "req_key \<noteq> ''operator''"
    by blast
  then show ?case
  proof cases
    case caps
    show ?thesis
    proof (cases req_value)
      case (JList xs)
      then show ?thesis using caps "2.IH"(1) rest sat
        by (auto simp: passes_rule_def list_ex_json_in Let_def)
    next
      case (JStr s)
      then show ?thesis using caps "2.IH"(1) rest sat
        by (auto simp: passes_rule_def Let_def)
    qed (use caps wt in \<open>auto simp: well_typed_requirement_def\<close>)
  next
    case minc
    then obtain items where items: "req_value = JDict items"
      "list_all (\<lambda>item. is_JNum (snd item)) items"
      using wt by (auto simp: well_typed_requirement_def split: json.splits)
    define ok where "ok = (\<forall>capacity_key threshold. (capacity_key, JNum threshold) \<in> set items \<longrightarrow>
                 (\<exists>c. map_of (r_capacity resource) capacity_key = Some c \<and> threshold \<le> real_of_int c))"
    have loop: "min_capacity_loop (r_capacity resource) items = Returned ok"
      unfolding ok_def by (rule min_capacity_loop_typed[OF items(2)])
    have rule: "passes_rule resource (req_key, req_value) = ok"
      unfolding ok_def using minc items(1) by (simp add: passes_rule_def)
    show ?thesis
    proof (cases ok)
      case True
      have "meets_requirements resource rest = Returned (requirements_satisfied resource rest)"
        using "2.IH"(2)[OF _ _ items(1), of True] minc loop True rest by simp
      then show ?thesis using minc items(1) loop True sat rule by simp
    next
      case False
      then show ?thesis using minc items(1) loop sat rule by simp
    qed
  next
    case oper
    then show ?thesis using "2.IH"(3) rest sat
      by (auto simp: passes_rule_def)
  next
    case other
    then show ?thesis using "2.IH"(4) rest sat
      by (auto simp: passes_rule_def)
  qed
qed

subsection \<open>Discovery\<close>

lemma discover_loop_step:
  "discover_loop fp request max_distance_km acc (r # rest) =
     (case candidate_check fp request max_distance_km r of
        Raised e \<Rightarrow> Raised e
      | Returned b \<Rightarrow> discover_loop fp request max_distance_km (if b then acc @ [r] else acc) rest)"
  by (simp add: candidate_check_def not_less split: outcome.split bool.split)

lemma discover_loop_returned:
  "discover_loop fp request max_distance_km acc rs = Returned out \<Longrightarrow>
   out = acc @ filter (passes_checks fp request max_distance_km) rs"
proof (induction rs arbitrary: acc)
  case Nil
  then show ?case by simp
next
  case (Cons r rest)
  from Cons.prems obtain b where b: "candidate_check fp request max_distance_km r = Returned b"
    and rec: "discover_loop fp request max_distance_km (if b then acc @ [r] else acc) rest = Returned out"
    unfolding discover_loop_step
    by (cases "candidate_check fp request max_distance_km r") simp_all
  have pc: "passes_checks fp request max_distance_km r = b"
    using b by (simp add: passes_checks_def)
  show ?case using Cons.IH[OF rec] pc by simp
qed

lemma discover_loop_total:
  "\<forall>r \<in> set rs. \<exists>b. candidate_check fp request max_distance_km r = Returned b \<Longrightarrow>
   \<exists>out. discover_loop fp request max_distance_km acc rs = Returned out"
proof (induction rs arbitrary: acc)
  case Nil
  then show ?case by simp
next
  case (Cons r rest)
  from Cons.prems obtain b where b: "candidate_check fp request max_distance_km r = Returned b"
    by auto
  have rest: "\<forall>r \<in> set rest. \<exists>b. candidate_check fp request max_distance_km r = Returned b"
    using Cons.prems by simp
  show ?case
    unfolding discover_loop_step b using Cons.IH[OF rest] by simp
qed

lemma passes_checks_distance:
  "passes_checks fp request max_distance_km r \<Longrightarrow>
   \<exists>d. distance_to fp (r_location r) (q_location request) = Returned d"
  by (auto simp: passes_checks_def candidate_check_def split: if_splits outcome.splits)

lemma sort_keys_returned:
  "\<forall>r \<in> set rs. \<exists>d. distance_to fp (r_location r) (q_location request) = Returned d \<Longrightarrow>
   sort_keys fp request rs =
     Returned (map (\<lambda>r. ((returned_distance fp request r, - q_priority request), r)) rs)"
  by (induction rs) (auto simp: returned_distance_def)

lemma insort_key_decorated:
  "insort_key fst (f a, a) (map (\<lambda>x. (f x, x)) ys) = map (\<lambda>x. (f x, x)) (insort_key f a ys)"
  by (induction ys) simp_all

lemma sort_key_decorated:
  "map snd (sort_key fst (map (\<lambda>x. (f x, x)) xs)) = sort_key f xs"
proof -
  have "sort_key fst (map (\<lambda>x. (f x, x)) xs) = map (\<lambda>x. (f x, x)) (sort_key f xs)"
    by (induction xs) (simp_all add: insort_key_decorated)
  then show ?thesis by (simp add: comp_def)
qed

text \<open>Discovery is the loop followed by a stable sort on the distance and a constant.\<close>

lemma discover_resources_sorted_loop:
  "discover_resources fp self request max_distance_km =
     (case discover_loop fp request max_distance_km [] (map snd (resources self)) of
        Raised e \<Rightarrow> Raised e
      | Returned out \<Rightarrow>
          Returned (sort_key (\<lambda>r. (returned_distance fp request r, - q_priority request)) out))"
proof (cases "discover_loop fp request max_distance_km [] (map snd (resources self))")
  case (Raised e)
  then show ?thesis by (simp add: discover_resources_def)
next
  case (Returned out)
  have "out = filter (passes_checks fp request max_distance_km) (map snd (resources self))"
    using discover_loop_returned[OF Returned] by simp
  then have "\<forall>r \<in> set out. \<exists>d. distance_to fp (r_location r) (q_location request) = Returned d"
    using passes_checks_distance by auto
  then show ?thesis
    using Returned by (simp add: discover_resources_def sort_keys_returned sort_key_decorated)
qed

lemma passes_checks_typed:
  "list_all well_typed_requirement (q_requirements request) \<Longrightarrow>
   passes_checks fp request max_distance_km = eligible fp request max_distance_km"
  by (auto simp: passes_checks_def candidate_check_def eligible_def distance_is_def
        meets_requirements_typed fun_eq_iff split: outcome.splits)

lemma sorted_by_distance:
  "sorted (map (returned_distance fp request)
             (sort_key (\<lambda>r. (returned_distance fp request r, - q_priority request)) xs))"
proof -
  let ?key = "\<lambda>r. (returned_distance fp request r, - q_priority request)"
  have "sorted (map ?key (sort_key ?key xs))"
    by (rule sorted_sort_key)
  then have "sorted_wrt (\<lambda>x y. ?key x \<le> ?key y) (sort_key ?key xs)"
    by (simp add: sorted_map)
  then have "sorted_wrt (\<lambda>x y. returned_distance fp request x \<le> returned_distance fp request y)
               (sort_key ?key xs)"
    by (rule sorted_wrt_mono_rel[rotated]) (auto simp: less_eq_prod_def)
  then show ?thesis by (simp add: sorted_map)
qed

text \<open>Discovery on well-typed requirements, when the distance of every resource of the
  requested type that is AVAILABLE can be computed: the result is the registry filtered
  by the four conditions, in ascending order of distance.\<close>

lemma discover_resources_exact:
  assumes "list_all well_typed_requirement (q_requirements request)"
    and "\<forall>r \<in> set (map snd (resources self)).
           r_resource_type r = q_resource_type request \<and> r_status r = AVAILABLE \<longrightarrow>
           (\<exists>d. distance_is fp request r d)"
  shows "\<exists>found. discover_resources fp self request max_distance_km = Returned found
           \<and> mset found = filter_mset (eligible fp request max_distance_km)
                             (mset (map snd (resources self)))
           \<and> (\<forall>r \<in> set found. distance_is fp request r (returned_distance fp request r))
           \<and> sorted (map (returned_distance fp request) found)"
proof -
  have "\<exists>b. candidate_check fp request max_distance_km r = Returned b"
    if mem: "r \<in> set (map snd (resources self))" for r
  proof (cases "r_resource_type r = q_resource_type request \<and> r_status r = AVAILABLE")
    case True
    then have "\<exists>d. distance_to fp (r_location r) (q_location request) = Returned d"
      using assms(2) mem unfolding distance_is_def by blast
    then obtain d where "distance_to fp (r_location r) (q_location request) = Returned d"
      by blast
    then show ?thesis
      using True assms(1) by (auto simp: candidate_check_def meets_requirements_typed)
  next
    case False
    then show ?thesis by (auto simp: candidate_check_def)
  qed
  then obtain out where out: "discover_loop fp request max_distance_km [] (map snd (resources self)) = Returned out"
    using discover_loop_total[of "map snd (resources self)" fp request max_distance_km "[]"] by blast
  have filt: "out = filter (eligible fp request max_distance_km) (map snd (resources self))"
    using discover_loop_returned[OF out] passes_checks_typed[OF assms(1)] by simp
  have dist: "distance_is fp request r (returned_distance fp request r)" if "r \<in> set out" for r
    using that filt by (auto simp: eligible_def distance_is_def returned_distance_def)
  show ?thesis
    unfolding discover_resources_sorted_loop out
    using filt dist sorted_by_distance[of fp request out] by simp
qed


subsection \<open>The distances of the examples\<close>

lemmas float_tables =
  add_table_def sub_table_def mul_table_def div_table_def pow_table_def sin_table_def
  cos_table_def sqrt_table_def atan2_table_def radians_table_def

lemma distance_origin_origin: "distance_to example_fp origin origin = Returned 0"
  by (simp add: distance_to_def example_fp_def tabled_def float_tables origin_def py_sqrt_def
        ideal_atan2_def)


lemma distance_north_antipode: "distance_to example_fp north antipode = Raised ValueError"
  by (simp add: distance_to_def example_fp_def tabled_def float_tables north_def antipode_def
        py_sqrt_def)

subsection \<open>Discovery on the examples\<close>

lemma example_fields:
  "r_resource_type drone_D1 = DRONE" "r_resource_type drone_D2 = DRONE"
  "r_resource_type drone_D3 = DRONE" "r_resource_type drone_N1 = DRONE"
  "r_status drone_D1 = AVAILABLE" "r_status drone_D2 = MAINTENANCE"
  "r_status drone_D3 = AVAILABLE" "r_status drone_N1 = AVAILABLE"
  "r_location drone_D1 = origin" "r_location drone_D3 = east" "r_location drone_N1 = north"
  "r_resource_id drone_D1 = ''D1''" "r_resource_id drone_D3 = ''D3''"
  "q_resource_type request_Q1 = DRONE" "q_location request_Q1 = origin"
  "q_priority request_Q1 = 3"
  "q_resource_type request_far = DRONE" "q_location request_far = antipode"
  by (simp_all add: drone_D1_def drone_D2_def drone_D3_def drone_N1_def request_Q1_def
        request_far_def)



text \<open>
  Claim C1. Discovery is to return exactly the resources of the requested type that are
  AVAILABLE, within the radius and meet the requirements, in ascending order of distance,
  for every registry and request. At a registry whose only drone is at latitude 2.5,
  longitude 0, and a request at latitude -2.5, longitude 180, the haversine term is
  rounded to \<open>1 + 2 ^ -52\<close>, \<open>math.sqrt (1 - a)\<close> raises ValueError, and discovery
  raises with it instead of returning the empty list.
\<close>

theorem discover_resources_far_raises:
  "discover_resources example_fp far_services request_far (PyInt 50) = Raised ValueError"
  by (simp add: discover_resources_def far_services_def example_fields distance_north_antipode)






subsection \<open>Requirement keys without a rule\<close>

text \<open>
  Claim C10. The result of the requirement check, a boolean or an exception, is the
  result on the requirements restricted to the keys \<open>capabilities\<close>, \<open>min_capacity\<close>
  and \<open>operator\<close>; in particular requirements with none of these keys are met by every
  resource, whatever their values are.
\<close>

theorem unrecognised_keys_ignored:
  "meets_requirements resource requirements =
     meets_requirements resource (filter (\<lambda>kv. recognised_key (fst kv)) requirements)
   \<and> ((\<forall>kv\<in>set requirements. \<not> recognised_key (fst kv)) \<longrightarrow>
        meets_requirements resource requirements = Returned True)"
  using meets_requirements_filter meets_requirements_unrecognised by blast

text \<open>Two keys without a rule, one of them with a null value.\<close>

theorem unrecognised_keys_ignored_witness:
  "\<not> recognised_key ''colour'' \<and> \<not> recognised_key ''min_cap''
   \<and> meets_requirements drone_D1 [(''colour'', JStr ''red''), (''min_cap'', JNull)] = Returned True"
  using unrecognised_keys_ignored[of drone_D1 "[(''colour'', JStr ''red''), (''min_cap'', JNull)]"]
  by (simp add: recognised_key_def)

subsection \<open>Route generation\<close>

lemma max_py_int: "max 2 (py_int x) = max 2 \<lfloor>x\<rfloor>"
proof (cases "0 \<le> x")
  case True
  then show ?thesis by (simp add: py_int_def)
next
  case False
  then have "\<lceil>x\<rceil> \<le> 0" "\<lfloor>x\<rfloor> \<le> 0" by (simp_all add: ceiling_le_iff floor_le_iff)
  then show ?thesis using False by (simp add: py_int_def)
qed

lemma generate_route_parts:
  "distance_to fp start dest = Returned d \<Longrightarrow>
   generate_route fp start dest =
     Returned (start # map (waypoint fp start dest (max 2 \<lfloor>f_div fp d 5000\<rfloor>))
                        [1..max 2 \<lfloor>f_div fp d 5000\<rfloor> - 1] @ [dest])"
  by (simp add: generate_route_def Let_def max_py_int)

lemma generate_route_raises:
  "distance_to fp start dest = Raised e \<Longrightarrow> generate_route fp start dest = Raised e"
  by (simp add: generate_route_def)







subsection \<open>Assignment\<close>

lemma update_resource_status_assignments [simp]:
  "assignments (snd (update_resource_status self rid st loc)) = assignments self"
  "active_requests (snd (update_resource_status self rid st loc)) = active_requests self"
  "fulfillment_history (snd (update_resource_status self rid st loc)) = fulfillment_history self"
  by (auto simp: update_resource_status_def Let_def split: option.splits)

lemma update_resource_status_lookup:
  "map_of (resources (snd (update_resource_status self rid st loc))) k =
     (if k = rid then
        (case map_of (resources self) rid of None \<Rightarrow> None
         | Some r \<Rightarrow> Some (case loc of None \<Rightarrow> r\<lparr>r_status := st\<rparr> | Some l \<Rightarrow> r\<lparr>r_status := st, r_location := l\<rparr>))
      else map_of (resources self) k)"
  by (auto simp: update_resource_status_def Let_def update_conv' split: option.splits)

lemma store_assignment_simps [simp]:
  "resources (store_assignment self k a) = resources self"
  "active_requests (store_assignment self k a) = active_requests self"
  "fulfillment_history (store_assignment self k a) = fulfillment_history self"
  "map_of (assignments (store_assignment self k a)) = (map_of (assignments self))(k \<mapsto> a)"
  by (auto simp: store_assignment_def update_conv')

lemma get_resource_speed_table:
  "get_resource_speed DRONE = 15.0"
  "get_resource_speed AUTONOMOUS_VEHICLE = 13.9"
  "get_resource_speed EMERGENCY_TEAM = 11.1"
  "get_resource_speed SUPPLY_DELIVERY = 8.3"
  "get_resource_speed MEDICAL_UNIT = 16.7"
  by (simp_all add: get_resource_speed_def speeds_def)


lemma assign_resource_to:
  assumes "map_of (active_requests self) request_id = Some request"
    and "map_of (resources self) key = Some resource"
    and "r_status resource = AVAILABLE"
    and "select_resource_id fp self request resource_id = Returned (Some key)"
    and "distance_to fp (r_location resource) (q_location request) = Returned d"
    and "generate_route fp (r_location resource) (q_location request) = Returned route"
  shows "assign_resource fp new_uuid now1 now2 self request_id resource_id =
     (let a = \<lparr>a_assignment_id = new_uuid, a_request_id = request_id, a_resource_id = key,
               a_status = ASSIGNED, a_assigned_at = now1,
               a_estimated_arrival =
                 Some (now2 + f_timedelta fp
                                (f_div fp d (get_resource_speed (r_resource_type resource)))),
               a_actual_arrival = None, a_completion_time = None,
               a_route = route,
               a_current_location = Some (r_location resource),
               a_progress_updates = []\<rparr>
      in (Returned (Some a),
          store_assignment (snd (update_resource_status self key RS_DISPATCHED None)) new_uuid a))"
  using assms by (simp add: assign_resource_def Let_def)










lemma travel_time_zero: "f_timedelta example_fp (f_div example_fp 0 15) = 0"
  by (simp add: example_fp_def tabled_def float_tables)

lemma route_origin_origin:
  "generate_route example_fp origin origin = Returned [origin, origin, origin]"
proof -
  have "waypoint example_fp origin origin 2 1 = origin"
    by (simp add: waypoint_def example_fp_def tabled_def float_tables origin_def)
  moreover have "\<lfloor>f_div example_fp 0 5000\<rfloor> = 0"
    by (simp add: example_fp_def tabled_def float_tables)
  ultimately show ?thesis
    by (simp add: generate_route_parts[OF distance_origin_origin] upto.simps)
qed




subsection \<open>Failures of an assignment\<close>










text \<open>The almost antipodal drone: the route generation raises, and so does the
  assignment, with the id omitted (inside discovery) and with the drone named (at the
  distance computation); neither is one of the four failures, and nothing is stored.\<close>

lemma far_raises:
  "generate_route example_fp north antipode = Raised ValueError"
  "assign_resource example_fp ''A1'' 100000000 100000001 far_services ''Q3'' None
     = (Raised ValueError, far_services)"
  "assign_failure example_fp far_services ''Q3'' None = None"
  "assign_resource example_fp ''A1'' 100000000 100000001 far_services ''Q3'' (Some ''N1'')
     = (Raised ValueError, far_services)"
  "assign_failure example_fp far_services ''Q3'' (Some ''N1'') = None"
proof -
  have d: "discover_resources example_fp far_services request_far (PyInt 50) = Raised ValueError"
    by (simp add: discover_resources_def far_services_def example_fields distance_north_antipode)
  have q: "map_of (active_requests far_services) ''Q3'' = Some request_far"
    "map_of (resources far_services) ''N1'' = Some drone_N1"
    by (simp_all add: far_services_def)
  show "generate_route example_fp north antipode = Raised ValueError"
    by (simp add: generate_route_raises distance_north_antipode)
  show "assign_resource example_fp ''A1'' 100000000 100000001 far_services ''Q3'' None
     = (Raised ValueError, far_services)"
    by (simp add: assign_resource_def q select_resource_id_def d)
  show "assign_failure example_fp far_services ''Q3'' None = None"
    by (simp add: assign_failure_def q d)
  show "assign_resource example_fp ''A1'' 100000000 100000001 far_services ''Q3'' (Some ''N1'')
     = (Raised ValueError, far_services)"
    by (simp add: assign_resource_def q select_resource_id_def example_fields
          distance_north_antipode)
  show "assign_failure example_fp far_services ''Q3'' (Some ''N1'') = None"
    by (simp add: assign_failure_def q example_fields)
qed

subsection \<open>The registry is keyed by resource id\<close>

text \<open>The registry stays keyed by resource id: \<open>register_resource\<close> stores a resource
  under its id, and every other operation changes the registry through
  \<open>update_resource_status\<close> only, which replaces a value by one with the same id.\<close>

lemma set_alist_update: "set (AList.update k v al) \<subseteq> insert (k, v) (set al)"
  by (induction al) auto

lemma registry_ok_update:
  assumes "registry_ok self" "r_resource_id r = k"
  shows "registry_ok (self\<lparr>resources := AList.update k r (resources self)\<rparr>)"
proof -
  have "r_resource_id (snd kv) = fst kv" if mem: "kv \<in> set (AList.update k r (resources self))" for kv
  proof -
    have "kv = (k, r) \<or> kv \<in> set (resources self)"
      using mem set_alist_update[of k r "resources self"] by blast
    then show ?thesis using assms by (auto simp: registry_ok_def list_all_iff)
  qed
  then show ?thesis
    using assms(1) by (simp add: registry_ok_def list_all_iff distinct_update)
qed

lemma registry_ok_initial: "resources self = [] \<Longrightarrow> registry_ok self"
  by (simp add: registry_ok_def)

lemma registry_ok_register:
  "registry_ok self \<Longrightarrow> registry_ok (snd (register_resource self resource))"
  by (simp add: register_resource_def registry_ok_update)

lemma registry_ok_update_resource_status:
  assumes "registry_ok self"
  shows "registry_ok (snd (update_resource_status self rid st loc))"
proof (cases "map_of (resources self) rid")
  case None
  then show ?thesis using assms by (simp add: update_resource_status_def)
next
  case (Some r)
  then have "(rid, r) \<in> set (resources self)" by (rule map_of_SomeD)
  then have id: "r_resource_id r = rid"
    using assms by (auto simp: registry_ok_def list_all_iff)
  show ?thesis
    using Some id assms
    by (cases loc) (simp_all add: update_resource_status_def Let_def registry_ok_update)
qed

lemma registry_ok_resources:
  "resources self' = resources self \<Longrightarrow> registry_ok self' = registry_ok self"
  by (simp add: registry_ok_def)

lemma registry_ok_store [simp]: "registry_ok (store_assignment self k a) = registry_ok self"
  by (simp add: registry_ok_def)

lemma registry_ok_history [simp]:
  "registry_ok (self\<lparr>fulfillment_history := h\<rparr>) = registry_ok self"
  by (simp add: registry_ok_def)

lemma registry_ok_assign:
  "registry_ok self \<Longrightarrow>
   registry_ok (snd (assign_resource fp new_uuid now1 now2 self request_id resource_id))"
  by (auto simp: assign_resource_def Let_def registry_ok_update_resource_status
        split: option.splits outcome.splits)

lemma registry_ok_cancel: "registry_ok self \<Longrightarrow> registry_ok (snd (cancel_assignment self k))"
  by (auto simp: cancel_assignment_def Let_def registry_ok_update_resource_status
        split: option.splits)

lemma registry_ok_start_dispatch:
  "registry_ok self \<Longrightarrow> registry_ok (snd (start_dispatch now self k a r))"
  by (simp add: start_dispatch_def Let_def registry_ok_update_resource_status)

lemma registry_ok_move_along_route:
  "registry_ok self \<Longrightarrow> registry_ok (snd (move_along_route fp now self k a r))"
  by (auto simp: move_along_route_def Let_def registry_ok_update_resource_status
        split: option.splits outcome.splits)

lemma registry_ok_complete_mission:
  "registry_ok self \<Longrightarrow> registry_ok (snd (complete_mission fp now self k a r))"
  by (auto simp: complete_mission_def Let_def registry_ok_update_resource_status
        split: option.splits)

lemma registry_ok_advance:
  "registry_ok self \<Longrightarrow> registry_ok (snd (update_assignment_progress fp now self k))"
  by (auto simp: update_assignment_progress_def registry_ok_start_dispatch
        registry_ok_move_along_route registry_ok_complete_mission split: option.splits)

subsection \<open>Progress of a dispatched assignment\<close>

lemma py_index_last: "xs \<noteq> [] \<Longrightarrow> py_index xs (- 1) = Returned (last xs)"
  by (cases xs rule: rev_cases) (auto simp: py_index_def nth_append)

lemma dispatched_branch:
  assumes "map_of (assignments self) assignment_id = Some a"
    and "a_status a = DISPATCHED"
    and "map_of (resources self) (a_resource_id a) = Some r"
  shows "update_assignment_progress fp now self assignment_id
           = move_along_route fp now self assignment_id a r"
  using assms by (simp add: update_assignment_progress_def)

text \<open>The two outcomes of a poll of a DISPATCHED assignment whose division returns, in
  the arithmetic of the platform: \<open>ratio\<close> is the float quotient of the elapsed and the
  total seconds.\<close>

lemma move_along_route_arrived:
  assumes "a_estimated_arrival a = Some eta"
    and "f_total_seconds fp (eta - a_assigned_at a) \<noteq> 0"
    and "1 \<le> f_div fp (f_total_seconds fp (now - a_assigned_at a))
                       (f_total_seconds fp (eta - a_assigned_at a))"
    and "a_route a \<noteq> []"
  shows "move_along_route fp now self assignment_id a r =
     (let a' = a\<lparr>a_status := IN_PROGRESS, a_actual_arrival := Some now,
                  a_current_location := Some (last (a_route a)),
                  a_progress_updates := a_progress_updates a @
                    [\<lparr>pu_timestamp = now, pu_status = ''arrived'',
                      pu_message = r_name r @ '' has arrived at destination'',
                      pu_progress_percentage = None\<rparr>]\<rparr>
      in (Returned (Some a'),
          store_assignment
            (snd (update_resource_status
                    (store_assignment self assignment_id
                       (a\<lparr>a_status := IN_PROGRESS, a_actual_arrival := Some now,
                          a_current_location := Some (last (a_route a))\<rparr>))
                    (a_resource_id a) ARRIVED (Some (last (a_route a)))))
            assignment_id a'))"
  using assms by (simp add: move_along_route_def Let_def py_index_last py_truediv_def)

lemma move_along_route_en_route:
  assumes "a_estimated_arrival a = Some eta"
    and "f_total_seconds fp (eta - a_assigned_at a) \<noteq> 0"
    and "f_div fp (f_total_seconds fp (now - a_assigned_at a))
                  (f_total_seconds fp (eta - a_assigned_at a)) = ratio"
    and "ratio < 1"
    and "py_index (a_route a)
           (py_int (f_mul fp ratio (real_of_int (int (length (a_route a)) - 1)))) = Returned loc"
  shows "move_along_route fp now self assignment_id a r =
     (let a' = a\<lparr>a_current_location := Some loc,
                  a_progress_updates := a_progress_updates a @
                    [\<lparr>pu_timestamp = now, pu_status = ''en_route'',
                      pu_message = r_name r @ '' is '' @ str_int (py_int (f_mul fp ratio 100)) @
                                   ''% of the way to destination'',
                      pu_progress_percentage = Some (py_int (f_mul fp ratio 100))\<rparr>]\<rparr>
      in (Returned (Some a'), store_assignment self assignment_id a'))"
proof -
  have mn: "min 1 ratio = ratio" "\<not> 1 \<le> ratio" using assms(4) by simp_all
  show ?thesis
    unfolding move_along_route_def Let_def assms(1) py_truediv_def
    using assms(2,5) mn by (simp add: assms(3))
qed

text \<open>When the total time is zero the division raises, whatever the clock shows, and
  nothing is changed.\<close>

lemma advance_zero_total_raises:
  assumes "map_of (assignments self) assignment_id = Some a"
    and "a_status a = DISPATCHED"
    and "a_estimated_arrival a = Some eta"
    and "f_total_seconds fp (eta - a_assigned_at a) = 0"
    and "map_of (resources self) (a_resource_id a) = Some r"
  shows "update_assignment_progress fp now self assignment_id = (Raised ZeroDivisionError, self)"
  unfolding dispatched_branch[OF assms(1,2,5)]
  by (simp add: move_along_route_def assms(3,4) py_truediv_def)

lemma travelling_lookup:
  "map_of (assignments travelling_services) ''A1'' = Some assignment_A1"
  "map_of (resources travelling_services) ''D3'' = Some (drone_D3\<lparr>r_status := EN_ROUTE\<rparr>)"
  by (simp_all add: travelling_services_def)

lemma assignment_A1_fields:
  "a_status assignment_A1 = DISPATCHED"
  "a_estimated_arrival assignment_A1 = Some 200000000"
  "a_assigned_at assignment_A1 = 100000000"
  "a_resource_id assignment_A1 = ''D3''"
  "a_route assignment_A1 = [east, sixteenth, origin]"
  "a_progress_updates assignment_A1 = []"
  "a_request_id assignment_A1 = ''Q1''"
  by (simp_all add: assignment_A1_def)

text \<open>A poll 29 s into the trip of 100 s: the quotient is the double 0.29, its
  product with 100 is 28.999999999999996, and the entry says 28 percent; the route index
  is \<open>int (0.58) = 0\<close>.\<close>

lemma en_route_example:
  "update_assignment_progress example_fp 129000000 travelling_services ''A1'' =
     (Returned (Some (assignment_A1
        \<lparr>a_current_location := Some east,
         a_progress_updates :=
           [\<lparr>pu_timestamp = 129000000, pu_status = ''en_route'',
             pu_message = ''Drone 1 is 28% of the way to destination'',
             pu_progress_percentage = Some 28\<rparr>]\<rparr>)),
      store_assignment travelling_services ''A1''
        (assignment_A1
           \<lparr>a_current_location := Some east,
            a_progress_updates :=
              [\<lparr>pu_timestamp = 129000000, pu_status = ''en_route'',
                pu_message = ''Drone 1 is 28% of the way to destination'',
                pu_progress_percentage = Some 28\<rparr>]\<rparr>))"
proof -
  define ratio :: real where "ratio = 5224175567749775 / 18014398509481984"
  have s28: "str_int 28 = ''28''" by (simp add: str_int_def str_nat.simps)
  have name: "r_name (drone_D3\<lparr>r_status := EN_ROUTE\<rparr>) = ''Drone 1''"
    by (simp add: drone_D3_def drone_D1_def)
  have r: "map_of (resources travelling_services) (a_resource_id assignment_A1)
             = Some (drone_D3\<lparr>r_status := EN_ROUTE\<rparr>)"
    by (simp add: assignment_A1_fields travelling_lookup)
  have total: "f_total_seconds example_fp (200000000 - a_assigned_at assignment_A1) \<noteq> 0"
    by (simp add: example_fp_def assignment_A1_fields)
  have q: "f_div example_fp (f_total_seconds example_fp (129000000 - a_assigned_at assignment_A1))
             (f_total_seconds example_fp (200000000 - a_assigned_at assignment_A1)) = ratio"
    by (simp add: example_fp_def assignment_A1_fields tabled_def float_tables ratio_def)
  have lt: "ratio < 1" by (simp add: ratio_def)
  have pct: "py_int (f_mul example_fp ratio 100) = 28"
    by (simp add: example_fp_def tabled_def float_tables ratio_def py_int_def floor_eq_iff)
  have idx: "py_int (f_mul example_fp ratio (real_of_int (int (length (a_route assignment_A1)) - 1))) = 0"
    by (simp add: example_fp_def tabled_def float_tables ratio_def py_int_def floor_eq_iff
          assignment_A1_fields)
  have loc: "py_index (a_route assignment_A1)
               (py_int (f_mul example_fp ratio (real_of_int (int (length (a_route assignment_A1)) - 1))))
             = Returned east"
    unfolding idx by (simp add: py_index_def assignment_A1_fields)
  show ?thesis
    unfolding dispatched_branch[OF travelling_lookup(1) assignment_A1_fields(1) r]
      move_along_route_en_route[OF assignment_A1_fields(2) total q lt loc] Let_def pct s28 name
    by (simp add: assignment_A1_fields)
qed

lemma zero_trip_assign:
  "assign_resource example_fp ''A1'' 100000000 100000000 example_services ''Q1'' (Some ''D1'')
     = (Returned (Some assignment_Z),
        store_assignment (snd (update_resource_status example_services ''D1'' RS_DISPATCHED None))
          ''A1'' assignment_Z)"
proof -
  have q: "map_of (active_requests example_services) ''Q1'' = Some request_Q1"
    by (simp add: example_services_def)
  have r: "map_of (resources example_services) ''D1'' = Some drone_D1"
    by (simp add: example_services_def)
  have av: "r_status drone_D1 = AVAILABLE" by (simp add: example_fields)
  have s: "select_resource_id example_fp example_services request_Q1 (Some ''D1'') = Returned (Some ''D1'')"
    by (simp add: select_resource_id_def)
  have d: "distance_to example_fp (r_location drone_D1) (q_location request_Q1) = Returned 0"
    by (simp add: example_fields distance_origin_origin)
  have g: "generate_route example_fp (r_location drone_D1) (q_location request_Q1)
             = Returned [origin, origin, origin]"
    by (simp add: example_fields route_origin_origin)
  show ?thesis
    unfolding assign_resource_to[OF q r av s d g]
    by (simp add: Let_def assignment_Z_def example_fields get_resource_speed_table travel_time_zero)
qed

lemma zero_trip_assigned_lookup:
  "map_of (assignments zero_trip_assigned) ''A1'' = Some assignment_Z"
  "map_of (resources zero_trip_assigned) ''D1'' = Some (drone_D1\<lparr>r_status := RS_DISPATCHED\<rparr>)"
  unfolding zero_trip_assigned_def zero_trip_assign
  by (simp_all add: update_resource_status_lookup example_services_def)

lemma zero_trip_dispatched_lookup:
  "map_of (assignments zero_trip_dispatched) ''A1'' =
     Some (assignment_Z\<lparr>a_status := DISPATCHED,
             a_progress_updates :=
               [\<lparr>pu_timestamp = 100000005, pu_status = ''dispatched'',
                 pu_message = ''Drone 1 has been dispatched'',
                 pu_progress_percentage = None\<rparr>]\<rparr>)"
  "map_of (resources zero_trip_dispatched) ''D1'' = Some (drone_D1\<lparr>r_status := EN_ROUTE\<rparr>)"
proof -
  have f: "a_resource_id assignment_Z = ''D1''" "a_status assignment_Z = ASSIGNED"
    "a_progress_updates assignment_Z = []"
    by (simp_all add: assignment_Z_def)
  have run: "update_assignment_progress example_fp 100000005 zero_trip_assigned ''A1''
          = start_dispatch 100000005 zero_trip_assigned ''A1'' assignment_Z
              (drone_D1\<lparr>r_status := RS_DISPATCHED\<rparr>)"
    by (simp add: update_assignment_progress_def zero_trip_assigned_lookup f)
  show "map_of (assignments zero_trip_dispatched) ''A1'' =
     Some (assignment_Z\<lparr>a_status := DISPATCHED,
             a_progress_updates :=
               [\<lparr>pu_timestamp = 100000005, pu_status = ''dispatched'',
                 pu_message = ''Drone 1 has been dispatched'',
                 pu_progress_percentage = None\<rparr>]\<rparr>)"
    unfolding zero_trip_dispatched_def run
    by (simp add: start_dispatch_def Let_def f) (simp add: drone_D1_def)
  show "map_of (resources zero_trip_dispatched) ''D1'' = Some (drone_D1\<lparr>r_status := EN_ROUTE\<rparr>)"
    unfolding zero_trip_dispatched_def run
    by (simp add: start_dispatch_def Let_def f update_resource_status_lookup
          zero_trip_assigned_lookup)
qed

text \<open>
  Claim C3. For every DISPATCHED assignment with an estimated arrival a poll is to
  compute the progress and either complete the trip or move along the route. For the
  assignment that \<open>assign_resource\<close> creates for a drone at the place of the request
  when its two clock readings agree, the estimated arrival is \<open>assigned_at\<close>: after
  the poll that dispatches it, every poll, at any time, raises ZeroDivisionError in
  \<open>elapsed / total_time\<close> and leaves the assignment DISPATCHED.
\<close>

theorem advance_zero_trip_raises:
  "assign_resource example_fp ''A1'' 100000000 100000000 example_services ''Q1'' (Some ''D1'')
     = (Returned (Some assignment_Z), zero_trip_assigned)
   \<and> a_assigned_at assignment_Z = 100000000
   \<and> a_estimated_arrival assignment_Z = Some 100000000
   \<and> map_option a_status (map_of (assignments zero_trip_dispatched) ''A1'') = Some DISPATCHED
   \<and> map_option a_assigned_at (map_of (assignments zero_trip_dispatched) ''A1'') = Some 100000000
   \<and> map_option a_estimated_arrival (map_of (assignments zero_trip_dispatched) ''A1'')
       = Some (Some 100000000)
   \<and> (\<forall>now. update_assignment_progress example_fp now zero_trip_dispatched ''A1''
              = (Raised ZeroDivisionError, zero_trip_dispatched))"
proof -
  have a: "assign_resource example_fp ''A1'' 100000000 100000000 example_services ''Q1'' (Some ''D1'')
     = (Returned (Some assignment_Z), zero_trip_assigned)"
    unfolding zero_trip_assigned_def zero_trip_assign by simp
  have z: "f_total_seconds example_fp (100000000 - 100000000) = 0"
    by (simp add: example_fp_def)
  have "update_assignment_progress example_fp now zero_trip_dispatched ''A1''
              = (Raised ZeroDivisionError, zero_trip_dispatched)" for now
    by (rule advance_zero_total_raises[OF zero_trip_dispatched_lookup(1), where eta = 100000000
            and r = "drone_D1\<lparr>r_status := EN_ROUTE\<rparr>"])
       (simp_all add: assignment_Z_def zero_trip_dispatched_lookup(2) example_fp_def)
  then show ?thesis
    using a by (simp add: zero_trip_dispatched_lookup) (simp add: assignment_Z_def)
qed

text \<open>
  Claim C6. \<open>cancel_assignment\<close> returns true exactly when the assignment id is known.
  For an unknown id it returns false and the state is unchanged. For a known id, whatever
  the assignment's status is, the stored assignment becomes the same assignment with
  status CANCELLED, and the resource it refers to, when registered, becomes AVAILABLE.
\<close>

theorem cancel_assignment_unconditional:
  "(fst (cancel_assignment self assignment_id) \<longleftrightarrow> map_of (assignments self) assignment_id \<noteq> None)
   \<and> (map_of (assignments self) assignment_id = None \<longrightarrow>
        cancel_assignment self assignment_id = (False, self))
   \<and> (\<forall>a. map_of (assignments self) assignment_id = Some a \<longrightarrow>
         fst (cancel_assignment self assignment_id)
       \<and> map_of (assignments (snd (cancel_assignment self assignment_id))) assignment_id
           = Some (a\<lparr>a_status := CANCELLED\<rparr>)
       \<and> (\<forall>r. map_of (resources self) (a_resource_id a) = Some r \<longrightarrow>
             map_of (resources (snd (cancel_assignment self assignment_id))) (a_resource_id a)
               = Some (r\<lparr>r_status := AVAILABLE\<rparr>)))"
  by (auto simp: cancel_assignment_def Let_def update_resource_status_lookup split: option.splits)

text \<open>A completed assignment is cancelled; an unknown id changes nothing.\<close>

theorem cancel_assignment_unconditional_witness:
  "a_status assignment_done = COMPLETED
   \<and> map_of (assignments done_services) ''A1'' = Some assignment_done
   \<and> fst (cancel_assignment done_services ''A1'')
   \<and> map_of (assignments (snd (cancel_assignment done_services ''A1''))) ''A1''
       = Some (assignment_done\<lparr>a_status := CANCELLED\<rparr>)
   \<and> map_option r_status (map_of (resources (snd (cancel_assignment done_services ''A1''))) ''D3'')
       = Some AVAILABLE
   \<and> map_of (assignments done_services) ''A9'' = None
   \<and> cancel_assignment done_services ''A9'' = (False, done_services)"
proof -
  have l: "map_of (assignments done_services) ''A1'' = Some assignment_done"
    "map_of (assignments done_services) ''A9'' = None"
    "map_of (resources done_services) ''D3'' = Some (drone_D3\<lparr>r_location := origin\<rparr>)"
    by (simp_all add: done_services_def)
  have f: "a_resource_id assignment_done = ''D3''" "a_status assignment_done = COMPLETED"
    by (simp_all add: assignment_done_def assignment_A1_def)
  show ?thesis
    using cancel_assignment_unconditional[of done_services "''A1''"]
      cancel_assignment_unconditional[of done_services "''A9''"] l f
    by simp
qed

text \<open>
  Claim C8. For a stored assignment with status COMPLETED or CANCELLED whose resource is
  registered, a poll at any time returns that assignment and leaves the whole state as
  it is (assignments, registry and fulfillment history), and so does any sequence of
  polls.
\<close>

theorem advance_terminal_noop:
  assumes "map_of (assignments self) assignment_id = Some a"
    and "a_status a = COMPLETED \<or> a_status a = CANCELLED"
    and "map_of (resources self) (a_resource_id a) = Some r"
  shows "update_assignment_progress fp now self assignment_id = (Returned (Some a), self)
       \<and> fold (\<lambda>t s. snd (update_assignment_progress fp t s assignment_id)) ts self = self"
proof -
  have one: "update_assignment_progress fp t self assignment_id = (Returned (Some a), self)" for t
    using assms by (auto simp: update_assignment_progress_def)
  have "fold (\<lambda>t s. snd (update_assignment_progress fp t s assignment_id)) ts self = self"
    by (induction ts) (simp_all add: one)
  then show ?thesis using one by simp
qed

text \<open>Four polls of a completed assignment.\<close>

theorem advance_terminal_noop_witness:
  "map_of (assignments done_services) ''A1'' = Some assignment_done
   \<and> a_status assignment_done = COMPLETED
   \<and> map_of (resources done_services) (a_resource_id assignment_done)
       = Some (drone_D3\<lparr>r_location := origin\<rparr>)
   \<and> update_assignment_progress example_fp 900000000 done_services ''A1''
       = (Returned (Some assignment_done), done_services)
   \<and> fold (\<lambda>t s. snd (update_assignment_progress example_fp t s ''A1''))
        [901000000, 902000000, 5000000000] done_services
       = done_services"
proof -
  have l: "map_of (assignments done_services) ''A1'' = Some assignment_done"
    by (simp add: done_services_def)
  have f: "a_status assignment_done = COMPLETED \<or> a_status assignment_done = CANCELLED"
    by (simp add: assignment_done_def)
  have r: "map_of (resources done_services) (a_resource_id assignment_done)
             = Some (drone_D3\<lparr>r_location := origin\<rparr>)"
    by (simp add: done_services_def assignment_done_def assignment_A1_def)
  show ?thesis
    using advance_terminal_noop[OF l f r, of example_fp 900000000 "[901000000, 902000000, 5000000000]"] l r
    by (simp add: assignment_done_def)
qed

subsection \<open>Lifecycle\<close>

lemma forward_refl: "forward s s"
  by (simp add: forward_def)

lemma forward_trans: "forward s s' \<Longrightarrow> forward s' s'' \<Longrightarrow> forward s s''"
  by (cases s; cases s'; cases s'') (simp_all add: forward_def)

lemma forward_from_cancelled: "forward CANCELLED s \<Longrightarrow> s = CANCELLED"
  by (cases s) (simp_all add: forward_def)

lemma forward_to_cancelled: "forward s CANCELLED \<Longrightarrow> s = CANCELLED"
  by (cases s) (simp_all add: forward_def)

lemma forward_from_completed: "forward COMPLETED s \<Longrightarrow> s = COMPLETED"
  by (cases s) (simp_all add: forward_def)

lemma start_dispatch_status:
  "\<exists>a'. map_of (assignments (snd (start_dispatch now self k a r))) =
           (map_of (assignments self))(k \<mapsto> a') \<and> a_status a' = DISPATCHED"
  by (simp add: start_dispatch_def Let_def fun_eq_iff)

lemma move_along_route_status:
  "a_status a = DISPATCHED \<Longrightarrow> map_of (assignments self) k = Some a \<Longrightarrow>
   \<exists>a'. map_of (assignments (snd (move_along_route fp now self k a r))) =
           (map_of (assignments self))(k \<mapsto> a')
        \<and> (a_status a' = DISPATCHED \<or> a_status a' = IN_PROGRESS)"
  by (auto simp: move_along_route_def Let_def fun_eq_iff map_upd_triv
           split: option.splits outcome.splits)

lemma complete_mission_status:
  "a_status a = IN_PROGRESS \<Longrightarrow> map_of (assignments self) k = Some a \<Longrightarrow>
   \<exists>a'. map_of (assignments (snd (complete_mission fp now self k a r))) =
           (map_of (assignments self))(k \<mapsto> a')
        \<and> (a_status a' = IN_PROGRESS \<or> a_status a' = COMPLETED)"
  by (auto simp: complete_mission_def Let_def fun_eq_iff map_upd_triv
           split: option.splits outcome.splits)

lemma advance_status:
  assumes "map_of (assignments self) k = Some a"
  shows "\<exists>a'. map_of (assignments (snd (update_assignment_progress fp now self k))) =
                 (map_of (assignments self))(k \<mapsto> a')
             \<and> forward (a_status a) (a_status a')"
proof (cases "map_of (resources self) (a_resource_id a)")
  case None
  then show ?thesis using assms
    by (auto simp: update_assignment_progress_def forward_refl map_upd_triv intro!: exI[of _ a])
next
  case (Some r)
  consider (asg) "a_status a = ASSIGNED" | (dis) "a_status a = DISPATCHED"
    | (inp) "a_status a = IN_PROGRESS"
    | (other) "a_status a \<noteq> ASSIGNED" "a_status a \<noteq> DISPATCHED" "a_status a \<noteq> IN_PROGRESS"
    by blast
  then show ?thesis
  proof cases
    case asg
    then show ?thesis
      using assms Some start_dispatch_status[of now self k a r]
      by (auto simp: update_assignment_progress_def forward_def)
  next
    case dis
    then show ?thesis
      using assms Some move_along_route_status[OF dis assms, of fp now r]
      by (auto simp: update_assignment_progress_def forward_def)
  next
    case inp
    then show ?thesis
      using assms Some complete_mission_status[OF inp assms, of fp now r]
      by (auto simp: update_assignment_progress_def forward_def)
  next
    case other
    then show ?thesis using assms Some
      by (auto simp: update_assignment_progress_def forward_refl map_upd_triv intro!: exI[of _ a])
  qed
qed

lemma advance_unknown:
  "map_of (assignments self) k = None \<Longrightarrow> snd (update_assignment_progress fp now self k) = self"
  by (simp add: update_assignment_progress_def)

lemma cancel_status:
  "map_of (assignments (snd (cancel_assignment self k))) =
     (case map_of (assignments self) k of
        None \<Rightarrow> map_of (assignments self)
      | Some a \<Rightarrow> (map_of (assignments self))(k \<mapsto> a\<lparr>a_status := CANCELLED\<rparr>))"
  by (simp add: cancel_assignment_def Let_def split: option.splits)

lemma assign_assignments:
  "map_of (assignments self) new_uuid = None \<Longrightarrow> k \<noteq> new_uuid \<Longrightarrow>
   map_of (assignments (snd (assign_resource fp new_uuid now1 now2 self request_id resource_id))) k
     = map_of (assignments self) k"
  by (auto simp: assign_resource_def Let_def split: option.splits outcome.splits)

text \<open>One operation: a cancellation of the assignment makes it CANCELLED, anything else
  leaves its status or moves it along the chain.\<close>

lemma step_forward:
  assumes "map_of (assignments self) k = Some a"
    and "fresh_uuids fp [operation] self"
  shows "\<exists>a'. map_of (assignments (apply_operation fp operation self)) k = Some a'
             \<and> (operation = Cancel k \<longrightarrow> a_status a' = CANCELLED)
             \<and> (operation \<noteq> Cancel k \<longrightarrow> forward (a_status a) (a_status a'))"
proof (cases operation)
  case (Assign new_uuid now1 now2 request_id resource_id)
  then have fresh: "map_of (assignments self) new_uuid = None" using assms(2) by simp
  then have "k \<noteq> new_uuid" using assms(1) by auto
  then show ?thesis
    using assign_assignments[OF fresh, of k] assms(1) Assign by (simp add: forward_refl)
next
  case (Advance now j)
  show ?thesis
  proof (cases "map_of (assignments self) j")
    case None
    then show ?thesis using Advance assms(1) by (simp add: advance_unknown forward_refl)
  next
    case (Some b)
    obtain b' where b': "map_of (assignments (snd (update_assignment_progress fp now self j))) =
                 (map_of (assignments self))(j \<mapsto> b')" "forward (a_status b) (a_status b')"
      using advance_status[OF Some, of fp now] by blast
    show ?thesis
    proof (cases "j = k")
      case True
      then show ?thesis using b' Some assms(1) Advance by auto
    next
      case False
      then show ?thesis using b' assms(1) Advance by (simp add: forward_refl)
    qed
  qed
next
  case (Cancel j)
  then show ?thesis
    using assms(1) by (auto simp: cancel_status forward_refl split: option.splits)
qed

lemma run_forward:
  assumes "fresh_uuids fp ops self" "map_of (assignments self) k = Some a"
  shows "\<exists>a'. map_of (assignments (run fp ops self)) k = Some a'
             \<and> (Cancel k \<in> set ops \<longrightarrow> a_status a' = CANCELLED)
             \<and> (Cancel k \<notin> set ops \<longrightarrow> forward (a_status a) (a_status a'))"
  using assms
proof (induction ops arbitrary: self a)
  case Nil
  then show ?case by (simp add: forward_refl)
next
  case (Cons operation rest)
  have f1: "fresh_uuids fp [operation] self" using Cons.prems(1) by simp
  have f2: "fresh_uuids fp rest (apply_operation fp operation self)" using Cons.prems(1) by simp
  obtain b where b: "map_of (assignments (apply_operation fp operation self)) k = Some b"
    "operation = Cancel k \<longrightarrow> a_status b = CANCELLED"
    "operation \<noteq> Cancel k \<longrightarrow> forward (a_status a) (a_status b)"
    using step_forward[OF Cons.prems(2) f1] by blast
  obtain a' where a': "map_of (assignments (run fp rest (apply_operation fp operation self))) k = Some a'"
    "Cancel k \<in> set rest \<longrightarrow> a_status a' = CANCELLED"
    "Cancel k \<notin> set rest \<longrightarrow> forward (a_status b) (a_status a')"
    using Cons.IH[OF f2 b(1)] by blast
  have c: "a_status a' = CANCELLED" if "Cancel k \<in> set (operation # rest)"
  proof (cases "Cancel k \<in> set rest")
    case True
    then show ?thesis using a'(2) by simp
  next
    case False
    then have "operation = Cancel k" using that by simp
    then have "a_status b = CANCELLED" using b(2) by simp
    then show ?thesis using a'(3) False forward_from_cancelled by metis
  qed
  have d: "forward (a_status a) (a_status a')" if "Cancel k \<notin> set (operation # rest)"
    using that a'(3) b(3) forward_trans by auto
  show ?case
    using a'(1) c d by auto
qed

lemma run_append: "run fp (xs @ ys) self = run fp ys (run fp xs self)"
  by (induction xs arbitrary: self) simp_all

lemma fresh_uuids_append:
  "fresh_uuids fp (xs @ ys) self \<longleftrightarrow> fresh_uuids fp xs self \<and> fresh_uuids fp ys (run fp xs self)"
  by (induction xs arbitrary: self) simp_all

text \<open>Two observations of an assignment along a sequence of operations, one after
  \<open>xs\<close> and one after \<open>xs @ ys\<close>: the later status is CANCELLED if \<open>ys\<close> cancels
  the assignment, and otherwise the earlier status or one further along the chain.\<close>

lemma lifecycle_between:
  assumes "fresh_uuids fp (xs @ ys) self" "map_of (assignments self) k = Some a"
  shows "\<exists>b c. map_of (assignments (run fp xs self)) k = Some b
             \<and> map_of (assignments (run fp (xs @ ys) self)) k = Some c
             \<and> (Cancel k \<in> set ys \<longrightarrow> a_status c = CANCELLED)
             \<and> (Cancel k \<notin> set ys \<longrightarrow> forward (a_status b) (a_status c))"
proof -
  have f: "fresh_uuids fp xs self" "fresh_uuids fp ys (run fp xs self)"
    using assms(1) by (simp_all add: fresh_uuids_append)
  obtain b where b: "map_of (assignments (run fp xs self)) k = Some b"
    using run_forward[OF f(1) assms(2)] by blast
  obtain c where c: "map_of (assignments (run fp ys (run fp xs self))) k = Some c"
    "Cancel k \<in> set ys \<longrightarrow> a_status c = CANCELLED"
    "Cancel k \<notin> set ys \<longrightarrow> forward (a_status b) (a_status c)"
    using run_forward[OF f(2) b] by blast
  show ?thesis
    using b c by (simp add: run_append)
qed

text \<open>
  Claim C5, amended. Across every sequence of assign, advance and cancel operations in
  which each assign draws an unused id, a stored assignment stays stored, and its status
  at the end is CANCELLED if the sequence cancels it; if the sequence does not cancel it,
  the status at the end is the status at the start or a later one in the chain ASSIGNED,
  DISPATCHED, IN\_PROGRESS, COMPLETED, so that without a cancellation a COMPLETED
  assignment stays COMPLETED, a CANCELLED one stays CANCELLED, and no assignment becomes
  CANCELLED. A cancellation makes the status CANCELLED from every status, COMPLETED
  included, and once CANCELLED it stays so under every sequence.
\<close>

theorem lifecycle_monotonic:
  assumes "fresh_uuids fp ops self" "map_of (assignments self) assignment_id = Some a"
  shows "\<exists>a'. map_of (assignments (run fp ops self)) assignment_id = Some a'
             \<and> (Cancel assignment_id \<in> set ops \<longrightarrow> a_status a' = CANCELLED)
             \<and> (Cancel assignment_id \<notin> set ops \<longrightarrow> forward (a_status a) (a_status a'))
             \<and> (Cancel assignment_id \<notin> set ops \<and> a_status a' = CANCELLED
                  \<longrightarrow> a_status a = CANCELLED)
             \<and> (a_status a = CANCELLED \<longrightarrow> a_status a' = CANCELLED)
             \<and> (a_status a = COMPLETED \<and> Cancel assignment_id \<notin> set ops
                  \<longrightarrow> a_status a' = COMPLETED)"
proof -
  obtain a' where a': "map_of (assignments (run fp ops self)) assignment_id = Some a'"
    "Cancel assignment_id \<in> set ops \<longrightarrow> a_status a' = CANCELLED"
    "Cancel assignment_id \<notin> set ops \<longrightarrow> forward (a_status a) (a_status a')"
    using run_forward[OF assms] by blast
  show ?thesis
    using a' forward_from_cancelled[of "a_status a'"] forward_from_completed[of "a_status a'"]
      forward_to_cancelled[of "a_status a"]
    by auto
qed

lemma travelling_arrives:
  obtains a where
    "map_of (assignments (run example_fp [Advance 200000000 ''A1''] travelling_services)) ''A1'' = Some a"
    "a_status a = IN_PROGRESS" "a_actual_arrival a = Some 200000000"
    "a_resource_id a = ''D3''" "a_request_id a = ''Q1''"
    "map_of (resources (run example_fp [Advance 200000000 ''A1''] travelling_services)) ''D3'' \<noteq> None"
    "active_requests (run example_fp [Advance 200000000 ''A1''] travelling_services)
       = [(''Q1'', request_Q1)]"
proof -
  have h: "f_total_seconds example_fp (200000000 - a_assigned_at assignment_A1) \<noteq> 0"
    "1 \<le> f_div example_fp (f_total_seconds example_fp (200000000 - a_assigned_at assignment_A1))
                           (f_total_seconds example_fp (200000000 - a_assigned_at assignment_A1))"
    "a_route assignment_A1 \<noteq> []"
    "map_of (resources travelling_services) (a_resource_id assignment_A1)
       = Some (drone_D3\<lparr>r_status := EN_ROUTE\<rparr>)"
    by (simp_all add: assignment_A1_fields travelling_lookup example_fp_def tabled_def float_tables)
  have "\<exists>a. map_of (assignments (run example_fp [Advance 200000000 ''A1''] travelling_services)) ''A1'' = Some a
     \<and> a_status a = IN_PROGRESS \<and> a_actual_arrival a = Some 200000000
     \<and> a_resource_id a = ''D3'' \<and> a_request_id a = ''Q1''
     \<and> map_of (resources (run example_fp [Advance 200000000 ''A1''] travelling_services)) ''D3'' \<noteq> None
     \<and> active_requests (run example_fp [Advance 200000000 ''A1''] travelling_services)
         = [(''Q1'', request_Q1)]"
    unfolding run.simps apply_operation.simps
      dispatched_branch[OF travelling_lookup(1) assignment_A1_fields(1) h(4)]
      move_along_route_arrived[OF assignment_A1_fields(2) h(1,2,3)] Let_def
    by (simp add: assignment_A1_fields update_resource_status_lookup travelling_lookup)
       (simp add: travelling_services_def)
  then show ?thesis using that by (elim exE conjE)
qed

lemma in_progress_completes:
  assumes "map_of (assignments self) k = Some a" "a_status a = IN_PROGRESS"
    "a_actual_arrival a = Some t" "300 < f_total_seconds fp (now - t)"
    "map_of (resources self) (a_resource_id a) \<noteq> None"
    "map_of (active_requests self) (a_request_id a) \<noteq> None"
  shows "map_option a_status (map_of (assignments (snd (update_assignment_progress fp now self k))) k)
           = Some COMPLETED"
proof -
  obtain r where r: "map_of (resources self) (a_resource_id a) = Some r"
    using assms(5) by blast
  obtain q where q: "map_of (active_requests self) (a_request_id a) = Some q"
    using assms(6) by blast
  have "update_assignment_progress fp now self k = complete_mission fp now self k a r"
    using assms(1,2) r by (simp add: update_assignment_progress_def)
  moreover have "map_option a_status (map_of (assignments (snd (complete_mission fp now self k a r))) k)
           = Some COMPLETED"
    using assms(3,4) q by (simp add: complete_mission_def Let_def)
  ultimately show ?thesis by simp
qed

lemma cancel_after_lookup:
  assumes "map_option a_status (map_of (assignments self) k) = Some s"
  shows "map_option a_status (map_of (assignments (snd (cancel_assignment self k))) k) = Some CANCELLED"
proof -
  obtain b where b: "map_of (assignments self) k = Some b"
    using assms by (cases "map_of (assignments self) k") simp_all
  show ?thesis unfolding cancel_status b by simp
qed

lemma travelling_completes:
  "map_option a_status
     (map_of (assignments (run example_fp [Advance 200000000 ''A1'', Advance 501000000 ''A1'']
                             travelling_services)) ''A1'')
     = Some COMPLETED"
proof -
  define s1 where "s1 = run example_fp [Advance 200000000 ''A1''] travelling_services"
  obtain a where a: "map_of (assignments s1) ''A1'' = Some a"
    "a_status a = IN_PROGRESS" "a_actual_arrival a = Some 200000000"
    "a_resource_id a = ''D3''" "a_request_id a = ''Q1''"
    "map_of (resources s1) ''D3'' \<noteq> None"
    "active_requests s1 = [(''Q1'', request_Q1)]"
    by (rule travelling_arrives[folded s1_def])
  have res: "map_of (resources s1) (a_resource_id a) \<noteq> None"
    unfolding a(4) by (rule a(6))
  have req: "map_of (active_requests s1) (a_request_id a) \<noteq> None"
    unfolding a(5) a(7) by simp
  have late: "300 < f_total_seconds example_fp (501000000 - 200000000)"
    by (simp add: example_fp_def)
  have c: "map_option a_status
     (map_of (assignments (snd (update_assignment_progress example_fp 501000000 s1 ''A1''))) ''A1'')
       = Some COMPLETED"
    by (rule in_progress_completes[OF a(1,2,3) late res req])
  have r2: "run example_fp [Advance 200000000 ''A1'', Advance 501000000 ''A1''] travelling_services
         = snd (update_assignment_progress example_fp 501000000 s1 ''A1'')"
    unfolding s1_def by (simp only: run.simps apply_operation.simps)
  show ?thesis unfolding r2 by (rule c)
qed

text \<open>The travelling assignment arrives at 200 s, completes at 501 s and is then
  cancelled: COMPLETED is followed by CANCELLED.\<close>

theorem completed_then_cancelled_counterexample:
  "map_option a_status
     (map_of (assignments (run example_fp [Advance 200000000 ''A1'', Advance 501000000 ''A1'']
                             travelling_services)) ''A1'')
     = Some COMPLETED
   \<and> map_option a_status
     (map_of (assignments
        (run example_fp [Cancel ''A1'']
           (run example_fp [Advance 200000000 ''A1'', Advance 501000000 ''A1'']
              travelling_services))) ''A1'')
     = Some CANCELLED"
proof -
  have "run example_fp [Cancel ''A1'']
           (run example_fp [Advance 200000000 ''A1'', Advance 501000000 ''A1''] travelling_services)
        = snd (cancel_assignment
                 (run example_fp [Advance 200000000 ''A1'', Advance 501000000 ''A1'']
                    travelling_services) ''A1'')"
    by (simp only: run.simps apply_operation.simps)
  then show ?thesis
    using travelling_completes cancel_after_lookup[OF travelling_completes] by simp
qed

text \<open>Two polls take the travelling assignment from DISPATCHED to COMPLETED; with a
  cancellation among the operations it ends CANCELLED, and later polls do not change
  that.\<close>

theorem lifecycle_monotonic_witness:
  "fresh_uuids example_fp [Advance 200000000 ''A1'', Advance 501000000 ''A1''] travelling_services
   \<and> map_of (assignments travelling_services) ''A1'' = Some assignment_A1
   \<and> Cancel ''A1'' \<notin> set [Advance 200000000 ''A1'', Advance 501000000 ''A1'']
   \<and> a_status assignment_A1 = DISPATCHED
   \<and> map_option a_status
       (map_of (assignments (run example_fp [Advance 200000000 ''A1'', Advance 501000000 ''A1'']
                               travelling_services)) ''A1'') = Some COMPLETED
   \<and> forward DISPATCHED COMPLETED
   \<and> fresh_uuids example_fp
       [Advance 150000000 ''A1'', Cancel ''A1'', Advance 900000000 ''A1''] travelling_services
   \<and> Cancel ''A1'' \<in> set [Advance 150000000 ''A1'', Cancel ''A1'', Advance 900000000 ''A1'']
   \<and> map_option a_status
       (map_of (assignments
          (run example_fp [Advance 150000000 ''A1'', Cancel ''A1'', Advance 900000000 ''A1'']
             travelling_services)) ''A1'') = Some CANCELLED"
proof -
  have l: "map_of (assignments travelling_services) ''A1'' = Some assignment_A1"
    by (rule travelling_lookup(1))
  have f1: "fresh_uuids example_fp [Advance 200000000 ''A1'', Advance 501000000 ''A1''] travelling_services"
    by simp
  have f2: "fresh_uuids example_fp
       [Advance 150000000 ''A1'', Cancel ''A1'', Advance 900000000 ''A1''] travelling_services"
    by simp
  have fw: "forward DISPATCHED COMPLETED" by (simp add: forward_def)
  have c: "map_option a_status
       (map_of (assignments
          (run example_fp [Advance 150000000 ''A1'', Cancel ''A1'', Advance 900000000 ''A1'']
             travelling_services)) ''A1'') = Some CANCELLED"
    using lifecycle_monotonic[OF f2 l] by auto
  have d: "\<exists>a'. map_of (assignments (run example_fp [Advance 200000000 ''A1'', Advance 501000000 ''A1'']
                               travelling_services)) ''A1'' = Some a'
                \<and> forward (a_status assignment_A1) (a_status a')"
    using lifecycle_monotonic[OF f1 l] by auto
  show ?thesis
    using l f1 f2 fw c d travelling_completes by (simp add: assignment_A1_fields)
qed

subsection \<open>Assignments refer to registered resources\<close>

lemma update_resource_status_keys:
  "fst ` set (resources (snd (update_resource_status self rid st loc))) = fst ` set (resources self)"
proof (cases "map_of (resources self) rid")
  case None
  then show ?thesis by (simp add: update_resource_status_def)
next
  case (Some r)
  then have "rid \<in> fst ` set (resources self)"
    by (metis map_of_eq_None_iff option.distinct(1))
  then show ?thesis
    using Some by (auto simp: update_resource_status_def Let_def dom_update)
qed

lemma references_ok_update_resource_status:
  "references_ok self \<Longrightarrow> references_ok (snd (update_resource_status self rid st loc))"
  by (simp add: references_ok_def update_resource_status_keys)

lemma references_ok_register:
  "references_ok self \<Longrightarrow> references_ok (snd (register_resource self resource))"
  by (auto simp: references_ok_def register_resource_def list_all_iff dom_update)

lemma references_ok_store:
  assumes "references_ok self" "a_resource_id a \<in> fst ` set (resources self)"
  shows "references_ok (store_assignment self k a)"
proof -
  have "a_resource_id (snd ka) \<in> fst ` set (resources self)"
    if mem: "ka \<in> set (AList.update k a (assignments self))" for ka
  proof -
    have "ka = (k, a) \<or> ka \<in> set (assignments self)"
      using mem set_alist_update[of k a "assignments self"] by blast
    then show ?thesis
      using assms by (force simp: references_ok_def list_all_iff)
  qed
  then show ?thesis
    by (simp add: references_ok_def store_assignment_def list_all_iff)
qed

lemma references_ok_lookup:
  "references_ok self \<Longrightarrow> map_of (assignments self) k = Some a \<Longrightarrow>
   a_resource_id a \<in> fst ` set (resources self)"
proof -
  assume ok: "references_ok self" and "map_of (assignments self) k = Some a"
  then have "(k, a) \<in> set (assignments self)" by (simp add: map_of_SomeD)
  then show ?thesis using ok by (force simp: references_ok_def list_all_iff)
qed

lemma references_ok_history:
  "references_ok (self\<lparr>fulfillment_history := h\<rparr>) = references_ok self"
  by (simp add: references_ok_def)

lemma references_ok_assign:
  assumes "references_ok self"
  shows "references_ok (snd (assign_resource fp new_uuid now1 now2 self request_id resource_id))"
proof -
  have "references_ok (store_assignment (snd (update_resource_status self rid RS_DISPATCHED None)) k a)"
    if "map_of (resources self) rid = Some r" "a_resource_id a = rid" for rid r k a
  proof -
    have "rid \<in> fst ` set (resources self)"
      using that(1) by (metis map_of_eq_None_iff option.distinct(1))
    then show ?thesis
      using that(2) assms
      by (intro references_ok_store references_ok_update_resource_status)
         (simp_all add: update_resource_status_keys)
  qed
  then show ?thesis
    using assms
    by (auto simp: assign_resource_def Let_def split: option.splits outcome.splits)
qed

lemma references_ok_cancel:
  assumes "references_ok self"
  shows "references_ok (snd (cancel_assignment self k))"
proof (cases "map_of (assignments self) k")
  case None
  then show ?thesis using assms by (simp add: cancel_assignment_def)
next
  case (Some a)
  have "references_ok (store_assignment self k (a\<lparr>a_status := CANCELLED\<rparr>))"
    using references_ok_lookup[OF assms Some] assms by (intro references_ok_store) simp_all
  then show ?thesis
    using Some by (simp add: cancel_assignment_def Let_def references_ok_update_resource_status)
qed

lemma references_ok_start_dispatch:
  assumes "references_ok self" "a_resource_id a \<in> fst ` set (resources self)"
  shows "references_ok (snd (start_dispatch now self k a r))"
  unfolding start_dispatch_def Let_def snd_conv
  using assms
  by (intro references_ok_store references_ok_update_resource_status)
     (simp_all add: update_resource_status_keys)

lemma references_ok_move_along_route:
  assumes "references_ok self" "a_resource_id a \<in> fst ` set (resources self)"
  shows "references_ok (snd (move_along_route fp now self k a r))"
proof -
  have st: "references_ok (store_assignment self k a')" if "a_resource_id a' = a_resource_id a" for a'
    using assms that by (intro references_ok_store) simp_all
  have st2: "references_ok (store_assignment (snd (update_resource_status (store_assignment self k a') rid s l)) k a'')"
    if "a_resource_id a' = a_resource_id a" "a_resource_id a'' = a_resource_id a" for a' a'' rid s l
    using assms that st[OF that(1)]
    by (intro references_ok_store references_ok_update_resource_status)
       (simp_all add: update_resource_status_keys)
  show ?thesis
    using assms(1)
    by (auto simp: move_along_route_def Let_def st st2 split: option.splits outcome.splits)
qed

lemma references_ok_complete_mission:
  assumes "references_ok self" "a_resource_id a \<in> fst ` set (resources self)"
  shows "references_ok (snd (complete_mission fp now self k a r))"
proof -
  have st: "references_ok (store_assignment self k a')" if "a_resource_id a' = a_resource_id a" for a'
    using assms that by (intro references_ok_store) simp_all
  have st2: "references_ok (store_assignment (snd (update_resource_status (store_assignment self k a') rid s l)) k a'')"
    if "a_resource_id a' = a_resource_id a" "a_resource_id a'' = a_resource_id a" for a' a'' rid s l
    using assms that st[OF that(1)]
    by (intro references_ok_store references_ok_update_resource_status)
       (simp_all add: update_resource_status_keys)
  show ?thesis
    using assms(1)
    by (auto simp: complete_mission_def Let_def st st2 references_ok_history
          references_ok_update_resource_status split: option.splits)
qed

lemma references_ok_advance:
  assumes "references_ok self"
  shows "references_ok (snd (update_assignment_progress fp now self k))"
proof (cases "map_of (assignments self) k")
  case None
  then show ?thesis using assms by (simp add: update_assignment_progress_def)
next
  case (Some a)
  note reg = references_ok_lookup[OF assms Some]
  show ?thesis
    using Some assms references_ok_start_dispatch[OF assms reg]
      references_ok_move_along_route[OF assms reg] references_ok_complete_mission[OF assms reg]
    by (auto simp: update_assignment_progress_def split: option.splits)
qed

lemma references_ok_run: "references_ok self \<Longrightarrow> references_ok (run fp ops self)"
proof (induction ops arbitrary: self)
  case Nil
  then show ?case by simp
next
  case (Cons operation rest)
  have "references_ok (apply_operation fp operation self)"
    using Cons.prems
    by (cases operation) (simp_all add: references_ok_assign references_ok_advance references_ok_cancel)
  then show ?case using Cons.IH by simp
qed

lemma references_ok_initial: "assignments self = [] \<Longrightarrow> references_ok self"
  by (simp add: references_ok_def)

lemma references_ok_registered:
  "references_ok self \<Longrightarrow> map_of (assignments self) k = Some a \<Longrightarrow>
   \<exists>r. map_of (resources self) (a_resource_id a) = Some r"
  using references_ok_lookup[of self k a]
  by (metis map_of_eq_None_iff not_None_eq)

text \<open>The registry stays keyed by resource id along every sequence of operations.\<close>

lemma registry_ok_run: "registry_ok self \<Longrightarrow> registry_ok (run fp ops self)"
proof (induction ops arbitrary: self)
  case Nil
  then show ?case by simp
next
  case (Cons operation rest)
  have "registry_ok (apply_operation fp operation self)"
    using Cons.prems
    by (cases operation) (simp_all add: registry_ok_assign registry_ok_advance registry_ok_cancel)
  then show ?case using Cons.IH by simp
qed

end
